theory Spec2Isabelle
  imports Complex_Main
begin

section \<open>Bayesian linear regression with basis functions: the notebook's code\<close>

text \<open>
  The development embeds the code cells of
  \<^verbatim>\<open>Bayesian_Linear_Regression_With_pymc3.ipynb\<close>.  NumPy floating-point numbers are
  idealised as real numbers (the cast \<^verbatim>\<open>.astype(np.float32)\<close> is the identity here),
  a one-dimensional array is a list, and a two-dimensional array carries its shape
  next to its rows, because an array with no rows still has a column count.
  Exceptions are values of type \<open>error\<close>, returned on the left of a sum.
\<close>

subsection \<open>Arrays and errors\<close>

datatype error = ValueError | ZeroDivisionError | KeyError

record 'a ndarray =
  nrows :: nat
  ncols :: nat
  rows :: "'a list list"

text \<open>An array is well shaped when its rows agree with the shape it carries.\<close>

definition wf_ndarray :: "'a ndarray \<Rightarrow> bool" where
  "wf_ndarray A =
     (length (rows A) = nrows A \<and> list_all (\<lambda>r. length r = ncols A) (rows A))"

text \<open>
  \<^verbatim>\<open>np.stack(arrays, axis=1)\<close> on a list of one-dimensional arrays: the arrays become
  the columns of the result.  NumPy raises \<^verbatim>\<open>ValueError\<close> when the list is empty
  (``need at least one array to stack'') and when the arrays differ in shape.
\<close>

definition stack_axis1 :: "'a list list \<Rightarrow> error + 'a ndarray" where
  "stack_axis1 arrays =
     (case arrays of
        [] \<Rightarrow> Inl ValueError
      | a0 # _ \<Rightarrow>
          if list_all (\<lambda>a. length a = length a0) arrays
          then Inr \<lparr>nrows = length a0, ncols = length arrays,
                    rows = map (\<lambda>i. map (\<lambda>a. a ! i) arrays) [0..<length a0]\<rparr>
          else Inl ValueError)"

text \<open>\<^verbatim>\<open>np.vstack\<close> of two two-dimensional arrays; the column counts must agree.\<close>

definition vstack :: "'a ndarray \<Rightarrow> 'a ndarray \<Rightarrow> error + 'a ndarray" where
  "vstack A B =
     (if ncols A = ncols B
      then Inr \<lparr>nrows = nrows A + nrows B, ncols = ncols A, rows = rows A @ rows B\<rparr>
      else Inl ValueError)"

subsection \<open>Basis functions and expansion\<close>

text \<open>
  \<^verbatim>\<open>def polynomial_basis(x, power): return x ** power\<close>, elementwise on the array
  \<open>x\<close>.  The exponent is a Python integer; \<open>expand_polynomial\<close> only passes
  exponents from \<^verbatim>\<open>range(1, degree + 1)\<close>, which are positive.
\<close>

definition polynomial_basis :: "real list \<Rightarrow> int \<Rightarrow> real list" where
  "polynomial_basis x pwr = map (\<lambda>xi. xi powi pwr) x"

text \<open>
  \<^verbatim>\<open>scipy.stats.norm(loc, scale).pdf(x)\<close>: the standard normal density
  \<^verbatim>\<open>exp(-y**2/2)/sqrt(2*pi)\<close> at \<open>y = (x - loc) / scale\<close>, divided by
  \<open>scale\<close>.  For a scale that is not positive SciPy raises nothing and returns
  \<^verbatim>\<open>nan\<close>, which is \<open>None\<close> here.
\<close>

definition norm_pdf_std :: "real \<Rightarrow> real" where
  "norm_pdf_std y = exp (- (y\<^sup>2) / 2) / sqrt (2 * pi)"

definition norm_pdf :: "real \<Rightarrow> real \<Rightarrow> real \<Rightarrow> real option" where
  "norm_pdf loc scale x =
     (if 0 < scale then Some (norm_pdf_std ((x - loc) / scale) / scale) else None)"

text \<open>
  \<^verbatim>\<open>def gaussian_basis(x, mu, sigma):
      return norm(loc=mu, scale=sigma).pdf(x).astype(np.float32)\<close>
\<close>

definition gaussian_basis :: "real list \<Rightarrow> real \<Rightarrow> real \<Rightarrow> real option list" where
  "gaussian_basis x mu sigma = map (norm_pdf mu sigma) x"

text \<open>
  \<^verbatim>\<open>def _expand(x, bf, bf_args):
      return np.stack([bf(x, bf_arg) for bf_arg in bf_args], axis=1)\<close>
  (named \<open>expand_with\<close> here, since a name cannot begin with an underscore).
\<close>

definition expand_with :: "'x \<Rightarrow> ('x \<Rightarrow> 'b \<Rightarrow> 'a list) \<Rightarrow> 'b list \<Rightarrow> error + 'a ndarray" where
  "expand_with x bf bf_args = stack_axis1 (map (\<lambda>bf_arg. bf x bf_arg) bf_args)"

text \<open>
  \<^verbatim>\<open>def expand_polynomial(x, degree=3):
      return _expand(x, bf=polynomial_basis, bf_args=range(1, degree + 1))\<close>
\<close>

definition expand_polynomial :: "real list \<Rightarrow> int \<Rightarrow> error + real ndarray" where
  "expand_polynomial x degree = expand_with x polynomial_basis [1..degree]"

text \<open>
  \<^verbatim>\<open>def expand_gaussian(x, mus=np.linspace(0, 1, 9), sigma=0.3):
      return _expand(x, bf=partial(gaussian_basis, sigma=sigma), bf_args=mus)\<close>
\<close>

definition expand_gaussian :: "real list \<Rightarrow> real list \<Rightarrow> real \<Rightarrow> error + real option ndarray" where
  "expand_gaussian x mus sigma = expand_with x (\<lambda>x mu. gaussian_basis x mu sigma) mus"

text \<open>\<^verbatim>\<open>expand = expand_polynomial\<close>, called with the default degree 3.\<close>

definition expand :: "real list \<Rightarrow> error + real ndarray" where
  "expand x = expand_polynomial x 3"

subsection \<open>The PyMC3 model\<close>

text \<open>
  The model cell declares \<^verbatim>\<open>w_0 = pm.Normal('w_0', mu=0, sigma=10)\<close>,
  \<^verbatim>\<open>w_r = pm.Normal('w_r', mu=0, sigma=10, shape=Phi.shape[1])\<close>,
  \<^verbatim>\<open>mu = w_0 + w_r.dot(Phi_shared.T)\<close> and
  \<^verbatim>\<open>t_obs = pm.Normal('t_obs', mu=mu, sigma=noise, observed=t)\<close>.
  The operations of Theano, PyMC3 and SciPy that the cell calls are library code; they
  are written out below as the libraries define them.
\<close>

text \<open>The attribute \<^verbatim>\<open>.T\<close> of a two-dimensional array: its transpose.\<close>

definition ndarray_T :: "'a ndarray \<Rightarrow> 'a ndarray" where
  "ndarray_T A =
     \<lparr>nrows = ncols A, ncols = nrows A,
      rows = map (\<lambda>j. map (\<lambda>r. r ! j) (rows A)) [0..<ncols A]\<rparr>"

text \<open>
  \<^verbatim>\<open>v.dot(B)\<close> of a vector with a two-dimensional array: entry \<open>i\<close> of the result is
  the sum over \<open>j\<close> of \<open>v[j] * B[j][i]\<close>.  The length of \<open>v\<close> must be the row count of
  \<open>B\<close>; otherwise the shapes are not aligned and a \<^verbatim>\<open>ValueError\<close> is raised.
\<close>

definition dot :: "real list \<Rightarrow> real ndarray \<Rightarrow> error + real list" where
  "dot v B =
     (if length v = nrows B
      then Inr (map (\<lambda>i. sum_list (map2 (\<lambda>vj r. vj * r ! i) v (rows B))) [0..<ncols B])
      else Inl ValueError)"

text \<open>
  \<^verbatim>\<open>mu = w_0 + w_r.dot(Phi_shared.T)\<close>, evaluated at a value of the weights and at
  the value the shared variable holds at that moment.
\<close>

definition model_mu :: "real ndarray \<Rightarrow> real \<Rightarrow> real list \<Rightarrow> error + real list" where
  "model_mu Phi_sh w0 wr =
     (case dot wr (ndarray_T Phi_sh) of
        Inl e \<Rightarrow> Inl e
      | Inr d \<Rightarrow> Inr (map (\<lambda>v. w0 + v) d))"

text \<open>
  The log-density of \<^verbatim>\<open>pm.Normal(mu, sigma)\<close> at a value, as PyMC3 computes it from
  the precision \<open>tau = sigma ** -2\<close>:
  \<^verbatim>\<open>bound((-tau * (value - mu)**2 + log(tau / pi / 2.)) / 2., sigma > 0)\<close>.
  Outside the bound the log-density is minus infinity, which is \<open>None\<close> here.
\<close>

definition Normal_logp :: "real \<Rightarrow> real \<Rightarrow> real \<Rightarrow> real option" where
  "Normal_logp mu sigma val =
     (if 0 < sigma
      then (let tau = 1 / sigma\<^sup>2
            in Some ((- tau * (val - mu)\<^sup>2 + ln (tau / pi / 2)) / 2))
      else None)"

text \<open>Summing log-densities; minus infinity absorbs every finite summand.\<close>

fun logp_sum :: "real option list \<Rightarrow> real option" where
  "logp_sum [] = Some 0"
| "logp_sum (l # ls) =
     (case l of
        None \<Rightarrow> None
      | Some a \<Rightarrow> (case logp_sum ls of None \<Rightarrow> None | Some b \<Rightarrow> Some (a + b)))"

text \<open>
  The observed data enter the log-density as a constant.  A constant of length one is
  broadcast against \<open>mu\<close>; otherwise its length must be the length of \<open>mu\<close>, and
  Theano raises \<^verbatim>\<open>ValueError\<close> when the dimensions do not match.
\<close>

definition broadcast_observed :: "real list \<Rightarrow> nat \<Rightarrow> error + real list" where
  "broadcast_observed t n =
     (if length t = n then Inr t
      else if length t = 1 then Inr (replicate n (t ! 0))
      else Inl ValueError)"

text \<open>
  The model's joint log-density (\<^verbatim>\<open>model.logp\<close>): the sum of the log-densities of the
  free variables \<open>w_0\<close> and \<open>w_r\<close> (elementwise) and of the observed variable \<open>t_obs\<close>
  at the data \<open>t\<close> (elementwise, after broadcasting).
  The observation noise \<^verbatim>\<open>noise\<close> is a global of the notebook (0.3 there).
\<close>

definition model_logp ::
  "real \<Rightarrow> real ndarray \<Rightarrow> real list \<Rightarrow> real \<Rightarrow> real list \<Rightarrow> error + real option" where
  "model_logp noise Phi_sh t w0 wr =
     (case model_mu Phi_sh w0 wr of
        Inl e \<Rightarrow> Inl e
      | Inr mu \<Rightarrow>
          (case broadcast_observed t (length mu) of
             Inl e \<Rightarrow> Inl e
           | Inr tb \<Rightarrow>
               Inr (logp_sum
                 [Normal_logp 0 10 w0,
                  logp_sum (map (Normal_logp 0 10) wr),
                  logp_sum (map2 (\<lambda>m ti. Normal_logp m noise ti) mu tb)])))"

subsection \<open>The model object\<close>

text \<open>
  What the block \<^verbatim>\<open>with pm.Model() as model:\<close> leaves behind for sampling and
  prediction: the shape of \<open>w_r\<close>, the precision and the standard deviation of the
  observed variable \<open>t_obs\<close>, and the observed data.
\<close>

record model =
  m_w_r_shape :: nat
  m_tau :: real
  m_sigma :: real
  m_observed :: "real list"

text \<open>
  PyMC3 parametrises \<^verbatim>\<open>pm.Normal\<close> by the precision:
  \<^verbatim>\<open>get_tau_sigma(sigma=sigma)\<close> computes \<^verbatim>\<open>tau = sigma ** -2.\<close>, and Python raises
  \<^verbatim>\<open>ZeroDivisionError\<close> when the float \<open>sigma\<close> is zero.
\<close>

definition get_tau_sigma :: "real \<Rightarrow> error + real \<times> real" where
  "get_tau_sigma sigma =
     (if sigma = 0 then Inl ZeroDivisionError else Inr (1 / sigma\<^sup>2, sigma))"

text \<open>
  The model block, for the design matrix \<open>P\<close> held by \<^verbatim>\<open>Phi\<close> and
  \<^verbatim>\<open>Phi_shared\<close>.  The statements run in order: \<open>w_0\<close>; \<open>w_r\<close> with
  \<^verbatim>\<open>shape=Phi.shape[1]\<close>, which PyMC3 rejects with \<^verbatim>\<open>ValueError\<close> when the shape is
  0; \<open>mu\<close>; and \<open>t_obs\<close> with \<^verbatim>\<open>sigma=noise\<close> and \<^verbatim>\<open>observed=t\<close>, where the
  precision is computed first and the log-density of the data is then built, inside the
  model context with test values, so that data which do not broadcast against \<open>mu\<close>
  raise \<^verbatim>\<open>ValueError\<close>.  The priors have the constant \<^verbatim>\<open>sigma=10\<close>.
\<close>

definition pm_Model :: "'a ndarray \<Rightarrow> real \<Rightarrow> real list \<Rightarrow> error + model" where
  "pm_Model P noise t =
     (if ncols P = 0 then Inl ValueError
      else
        (case get_tau_sigma noise of
           Inl e \<Rightarrow> Inl e
         | Inr (tau, sigma) \<Rightarrow>
             (case broadcast_observed t (nrows P) of
                Inl e \<Rightarrow> Inl e
              | Inr tb \<Rightarrow>
                  Inr \<lparr>m_w_r_shape = ncols P, m_tau = tau, m_sigma = sigma,
                       m_observed = t\<rparr>)))"

subsection \<open>Posterior predictive sampling\<close>

text \<open>A point of the trace: one posterior draw of the free variables.\<close>

record point =
  w_0 :: real
  w_r :: "real list"

text \<open>
  \<^verbatim>\<open>Normal.random\<close> calls SciPy's \<^verbatim>\<open>norm.rvs(loc=mu, scale=tau**-0.5)\<close>: a standard
  normal variate \<open>z\<close> of the random source, scaled and shifted.
\<close>

definition Normal_random :: "real \<Rightarrow> real \<Rightarrow> real \<Rightarrow> real" where
  "Normal_random mu tau z = mu + tau powr (- 1 / 2) * z"

text \<open>
  One predictive draw of \<open>t_obs\<close> at a posterior point.  The mean \<open>mu\<close> is evaluated
  with the current value of the shared design matrix and has one entry for each of its
  rows.  PyMC3 first draws with the shape of the observed data, which works when \<open>mu\<close>
  broadcasts against that shape, and otherwise draws again with the shape of \<open>mu\<close>.
  So a \<open>mu\<close> of length one is broadcast to the length of the observed data, and any
  other \<open>mu\<close> keeps its length.  Entry \<open>i\<close> of the draw gets the variate \<open>z i\<close>.
\<close>

definition draw_t_obs :: "model \<Rightarrow> real ndarray \<Rightarrow> point \<Rightarrow> (nat \<Rightarrow> real) \<Rightarrow> error + real list" where
  "draw_t_obs m Phi_sh p z =
     (case model_mu Phi_sh (w_0 p) (w_r p) of
        Inl e \<Rightarrow> Inl e
      | Inr mu \<Rightarrow>
          Inr (map (\<lambda>i. Normal_random (if length mu = 1 then mu ! 0 else mu ! i) (m_tau m) (z i))
                 [0..<(if length mu = 1 then length (m_observed m) else length mu)]))"

text \<open>Running a list of computations; the first exception wins.\<close>

fun collect :: "(error + 'a) list \<Rightarrow> error + 'a list" where
  "collect [] = Inr []"
| "collect (r # rs) =
     (case r of
        Inl e \<Rightarrow> Inl e
      | Inr v \<Rightarrow> (case collect rs of Inl e \<Rightarrow> Inl e | Inr vs \<Rightarrow> Inr (v # vs)))"

text \<open>
  \<^verbatim>\<open>pm.sample_posterior_predictive(trace, model=model, samples=samples)['t_obs']\<close>:
  predictive draw \<open>k\<close> takes the posterior point with index \<open>pick k\<close> (modulo the
  length of the trace) and draws \<open>t_obs\<close> there with the variates \<open>z k\<close>.  The
  result is a two-dimensional array with one row for each draw.  With no draw at all
  the result dictionary has no key \<^verbatim>\<open>'t_obs'\<close> and the subscript raises
  \<^verbatim>\<open>KeyError\<close>.  The index sequence \<open>pick\<close> and the variates \<open>z\<close> stand for the
  random source; an empty trace is rejected.
\<close>

definition sample_posterior_predictive ::
  "point list \<Rightarrow> model \<Rightarrow> real ndarray \<Rightarrow> nat \<Rightarrow> (nat \<Rightarrow> nat) \<Rightarrow> (nat \<Rightarrow> nat \<Rightarrow> real)
     \<Rightarrow> error + real ndarray" where
  "sample_posterior_predictive trace m Phi_sh samples pick z =
     (if samples = 0 then Inl KeyError
      else if trace = [] then Inl ValueError
      else
        (case collect (map (\<lambda>k. draw_t_obs m Phi_sh
                                  (trace ! (pick k mod length trace)) (z k)) [0..<samples]) of
           Inl e \<Rightarrow> Inl e
         | Inr draws \<Rightarrow>
             Inr \<lparr>nrows = samples,
                  ncols = (if nrows Phi_sh = 1 then length (m_observed m) else nrows Phi_sh),
                  rows = draws\<rparr>))"

subsection \<open>The notebook's cells\<close>

text \<open>
  The global variables of the notebook that the model, inference and prediction cells
  read and write.  \<open>nb_Phi\<close> is the Python variable \<^verbatim>\<open>Phi\<close>; \<open>nb_Phi_shared\<close> is the
  value held by the Theano shared variable \<^verbatim>\<open>Phi_shared = shared(Phi)\<close>, which keeps
  its own copy of the array, so the two do not alias.  The entries of the design matrix
  are reals for the polynomial family and reals or \<^verbatim>\<open>nan\<close> for the Gaussian family.
\<close>

record 'a notebook =
  nb_x :: "real list"
  nb_t :: "real list"
  nb_x_test :: "real list"
  nb_noise :: real
  nb_Phi :: "'a ndarray"
  nb_Phi_shared :: "'a ndarray"
  nb_model :: model
  nb_trace :: "point list"
  nb_predictive_samples :: "real ndarray"

text \<open>
  The model cell: \<^verbatim>\<open>Phi = expand(x)\<close>, \<^verbatim>\<open>Phi_shared = shared(Phi)\<close>, and the model
  block.  The global \<^verbatim>\<open>expand\<close> is bound to one of the expansion functions; it is the
  parameter \<open>expand_fn\<close>.
\<close>

definition cell_model ::
  "(real list \<Rightarrow> error + 'a ndarray) \<Rightarrow> 'a notebook \<Rightarrow> error + 'a notebook" where
  "cell_model expand_fn s =
     (case expand_fn (nb_x s) of
        Inl e \<Rightarrow> Inl e
      | Inr P \<Rightarrow>
          (case pm_Model P (nb_noise s) (nb_t s) of
             Inl e \<Rightarrow> Inl e
           | Inr m \<Rightarrow> Inr (s\<lparr>nb_Phi := P, nb_Phi_shared := P, nb_model := m\<rparr>)))"

text \<open>
  The inference cell: \<^verbatim>\<open>trace = pm.sample()\<close>.  The sampler is library code.  It is
  the parameter \<open>nuts\<close>, which sees the model and the value of the shared design
  matrix and either raises or returns the numbers it sampled: \<open>vals k j\<close> is
  coordinate \<open>j\<close> of draw \<open>k\<close>, coordinate 0 for \<open>w_0\<close> and the following ones for
  \<open>w_r\<close>.  The trace stores each draw in the shapes the model declares: a scalar
  \<open>w_0\<close> and a \<open>w_r\<close> with the declared shape.  \<open>draws\<close> is the length of the trace.
\<close>

definition cell_inference ::
  "(model \<Rightarrow> 'a ndarray \<Rightarrow> error + (nat \<Rightarrow> nat \<Rightarrow> real)) \<Rightarrow> nat \<Rightarrow> 'a notebook
     \<Rightarrow> error + 'a notebook" where
  "cell_inference nuts draws s =
     (case nuts (nb_model s) (nb_Phi_shared s) of
        Inl e \<Rightarrow> Inl e
      | Inr vals \<Rightarrow>
          Inr (s\<lparr>nb_trace :=
                   map (\<lambda>k. \<lparr>w_0 = vals k 0,
                              w_r = map (\<lambda>j. vals k (Suc j))
                                      [0..<m_w_r_shape (nb_model s)]\<rparr>) [0..<draws]\<rparr>))"

text \<open>
  The prediction cell: \<^verbatim>\<open>Phi_shared.set_value(expand(x_test))\<close> followed by
  \<^verbatim>\<open>predictive_samples = pm.sample_posterior_predictive(trace, model=model,
  samples=5000)['t_obs']\<close>.
\<close>

definition cell_prediction ::
  "(real list \<Rightarrow> error + real ndarray) \<Rightarrow> nat \<Rightarrow> (nat \<Rightarrow> nat) \<Rightarrow> (nat \<Rightarrow> nat \<Rightarrow> real)
     \<Rightarrow> real notebook \<Rightarrow> error + real notebook" where
  "cell_prediction expand_fn samples pick z s =
     (case expand_fn (nb_x_test s) of
        Inl e \<Rightarrow> Inl e
      | Inr P \<Rightarrow>
          (let s1 = s\<lparr>nb_Phi_shared := P\<rparr>
           in case sample_posterior_predictive (nb_trace s1) (nb_model s1) (nb_Phi_shared s1)
                     samples pick z of
                Inl e \<Rightarrow> Inl e
              | Inr ps \<Rightarrow> Inr (s1\<lparr>nb_predictive_samples := ps\<rparr>)))"

text \<open>
  A Gaussian design matrix without \<^verbatim>\<open>nan\<close> (bandwidth above zero) read as a matrix of
  reals, which is how it enters the prediction cell.
\<close>

definition nan_free :: "real option ndarray \<Rightarrow> real ndarray" where
  "nan_free A = \<lparr>nrows = nrows A, ncols = ncols A, rows = map (map the) (rows A)\<rparr>"

definition expand_gaussian_reals :: "real list \<Rightarrow> real list \<Rightarrow> real \<Rightarrow> error + real ndarray" where
  "expand_gaussian_reals x mus sigma =
     (case expand_gaussian x mus sigma of Inl e \<Rightarrow> Inl e | Inr A \<Rightarrow> Inr (nan_free A))"

subsection \<open>The log-density of a normal distribution\<close>

text \<open>
  The density of the normal distribution with mean \<open>m\<close> and standard deviation \<open>s\<close>,
  and its logarithm: the quantity the model's joint log-density is compared with.
\<close>

definition Normal_density :: "real \<Rightarrow> real \<Rightarrow> real \<Rightarrow> real" where
  "Normal_density m s v = exp (- ((v - m)\<^sup>2) / (2 * s\<^sup>2)) / (s * sqrt (2 * pi))"

definition log_density_Normal :: "real \<Rightarrow> real \<Rightarrow> real \<Rightarrow> real" where
  "log_density_Normal m s v = ln (Normal_density m s v)"

subsection \<open>A small run of the notebook\<close>

text \<open>
  A state of the notebook used in the examples below: one training input \<open>0\<close> with the
  target \<open>1\<close>, two query inputs \<open>0\<close> and \<open>1\<close>, a polynomial expansion of degree one,
  the observation noise 0.3 of the notebook, the model built from these, and a trace
  that holds the single posterior sample \<open>w_0 = 1\<close>, \<open>w_r = [2]\<close>.
\<close>

definition demo_notebook :: "real notebook" where
  "demo_notebook =
     \<lparr>nb_x = [0], nb_t = [1], nb_x_test = [0, 1], nb_noise = 3 / 10,
      nb_Phi = \<lparr>nrows = 1, ncols = 1, rows = [[0]]\<rparr>,
      nb_Phi_shared = \<lparr>nrows = 1, ncols = 1, rows = [[0]]\<rparr>,
      nb_model = \<lparr>m_w_r_shape = 1, m_tau = 100 / 9, m_sigma = 3 / 10, m_observed = [1]\<rparr>,
      nb_trace = [\<lparr>w_0 = 1, w_r = [2]\<rparr>],
      nb_predictive_samples = \<lparr>nrows = 0, ncols = 0, rows = []\<rparr>\<rparr>"

section \<open>Properties of basis expansion\<close>

lemma stack_axis1_uniform:
  assumes "bf_args \<noteq> []" and "\<And>b. length (f b) = n"
  shows "stack_axis1 (map f bf_args) =
           Inr \<lparr>nrows = n, ncols = length bf_args,
                rows = map (\<lambda>i. map (\<lambda>b. f b ! i) bf_args) [0..<n]\<rparr>"
proof -
  obtain b bs where bs: "bf_args = b # bs"
    using assms(1) by (cases bf_args) auto
  have all: "list_all (\<lambda>a. length a = length (f b)) (map f bf_args)"
    by (simp add: list_all_iff assms(2))
  show ?thesis
    using all by (simp add: stack_axis1_def bs assms(2) comp_def)
qed

lemma stack_axis1_empty: "stack_axis1 [] = Inl ValueError"
  by (simp add: stack_axis1_def)

lemma expand_polynomial_Inr:
  assumes "1 \<le> degree"
  shows "expand_polynomial x degree =
           Inr \<lparr>nrows = length x, ncols = nat degree,
                rows = map (\<lambda>i. map (\<lambda>p. x ! i powi p) [1..degree]) [0..<length x]\<rparr>"
proof -
  have ne: "[1..degree] \<noteq> []"
    using assms by (simp add: upto.simps)
  have len: "\<And>p. length (polynomial_basis x p) = length x"
    by (simp add: polynomial_basis_def)
  have "stack_axis1 (map (polynomial_basis x) [1..degree]) =
          Inr \<lparr>nrows = length x, ncols = length [1..degree],
               rows = map (\<lambda>i. map (\<lambda>p. polynomial_basis x p ! i) [1..degree]) [0..<length x]\<rparr>"
    by (rule stack_axis1_uniform [OF ne len])
  moreover have "map (\<lambda>i. map (\<lambda>p. polynomial_basis x p ! i) [1..degree]) [0..<length x] =
                 map (\<lambda>i. map (\<lambda>p. x ! i powi p) [1..degree]) [0..<length x]"
    by (simp add: polynomial_basis_def)
  ultimately show ?thesis
    by (simp add: expand_polynomial_def expand_with_def)
qed

lemma expand_polynomial_Inl:
  "degree < 1 \<Longrightarrow> expand_polynomial x degree = Inl ValueError"
  by (simp add: expand_polynomial_def expand_with_def stack_axis1_empty)

lemma map_nth_fun: "map (\<lambda>i. f (xs ! i)) [0..<length xs] = map f xs"
  by (rule nth_equalityI) simp_all

lemma expand_polynomial_rows:
  assumes "1 \<le> degree"
  shows "expand_polynomial x degree =
           Inr \<lparr>nrows = length x, ncols = nat degree,
                rows = map (\<lambda>xi. map (\<lambda>p. xi powi p) [1..degree]) x\<rparr>"
  using expand_polynomial_Inr [OF assms, of x]
    map_nth_fun [of "\<lambda>xi. map (\<lambda>p. xi powi p) [1..degree]" x]
  by simp

lemma expand_gaussian_rows:
  assumes "mus \<noteq> []"
  shows "expand_gaussian x mus sigma =
           Inr \<lparr>nrows = length x, ncols = length mus,
                rows = map (\<lambda>xi. map (\<lambda>mu. norm_pdf mu sigma xi) mus) x\<rparr>"
proof -
  have len: "\<And>mu. length (gaussian_basis x mu sigma) = length x"
    by (simp add: gaussian_basis_def)
  have "stack_axis1 (map (\<lambda>mu. gaussian_basis x mu sigma) mus) =
          Inr \<lparr>nrows = length x, ncols = length mus,
               rows = map (\<lambda>i. map (\<lambda>mu. gaussian_basis x mu sigma ! i) mus) [0..<length x]\<rparr>"
    by (rule stack_axis1_uniform [OF assms len])
  moreover have "map (\<lambda>i. map (\<lambda>mu. gaussian_basis x mu sigma ! i) mus) [0..<length x] =
                 map (\<lambda>i. (\<lambda>xi. map (\<lambda>mu. norm_pdf mu sigma xi) mus) (x ! i)) [0..<length x]"
    by (simp add: gaussian_basis_def)
  moreover note map_nth_fun [of "\<lambda>xi. map (\<lambda>mu. norm_pdf mu sigma xi) mus" x]
  ultimately show ?thesis
    by (simp add: expand_gaussian_def expand_with_def)
qed

lemma expand_gaussian_Inl: "expand_gaussian x [] sigma = Inl ValueError"
  by (simp add: expand_gaussian_def expand_with_def stack_axis1_empty)

lemma norm_pdf_closed_form:
  assumes "0 < sigma"
  shows "norm_pdf mu sigma x =
           Some (exp (- ((x - mu)\<^sup>2) / (2 * sigma\<^sup>2)) / (sigma * sqrt (2 * pi)))"
proof -
  have "- (((x - mu) / sigma)\<^sup>2) / 2 = - ((x - mu)\<^sup>2) / (2 * sigma\<^sup>2)"
    by (simp add: power_divide)
  then show ?thesis
    using assms by (simp add: norm_pdf_def norm_pdf_std_def mult.commute)
qed

lemma bump_strict_mono:
  fixes sigma :: real
  assumes "0 < sigma" and "\<bar>a\<bar> < \<bar>b\<bar>"
  shows "exp (- (b\<^sup>2) / (2 * sigma\<^sup>2)) / (sigma * sqrt (2 * pi))
       < exp (- (a\<^sup>2) / (2 * sigma\<^sup>2)) / (sigma * sqrt (2 * pi))"
proof -
  have sq: "a\<^sup>2 < b\<^sup>2"
    using assms(2) by (metis abs_ge_zero power2_abs power_strict_mono pos2)
  have pos: "0 < 2 * sigma\<^sup>2"
    using assms(1) by simp
  have "- (b\<^sup>2) / (2 * sigma\<^sup>2) < - (a\<^sup>2) / (2 * sigma\<^sup>2)"
    using sq pos by (simp add: divide_strict_right_mono)
  then have "exp (- (b\<^sup>2) / (2 * sigma\<^sup>2)) < exp (- (a\<^sup>2) / (2 * sigma\<^sup>2))"
    by simp
  moreover have "0 < sigma * sqrt (2 * pi)"
    using assms(1) by simp
  ultimately show ?thesis
    by (simp add: divide_strict_right_mono)
qed

lemma bump_le_peak:
  fixes sigma :: real
  assumes "0 < sigma"
  shows "exp (- (a\<^sup>2) / (2 * sigma\<^sup>2)) / (sigma * sqrt (2 * pi)) \<le> 1 / (sigma * sqrt (2 * pi))"
proof -
  have "- (a\<^sup>2) / (2 * sigma\<^sup>2) \<le> 0"
    by (simp add: divide_nonpos_pos assms)
  then have "exp (- (a\<^sup>2) / (2 * sigma\<^sup>2)) \<le> 1"
    by simp
  moreover have "0 < sigma * sqrt (2 * pi)"
    using assms by simp
  ultimately show ?thesis
    by (simp add: divide_right_mono)
qed

text \<open>
  C2.  For an input of length \<open>N \<ge> 1\<close> and a degree \<open>\<ge> 1\<close>, polynomial expansion
  returns an \<open>N \<times> degree\<close> matrix whose column \<open>j\<close> (counted from 1 to \<open>degree\<close>) is
  \<open>x\<close> raised to the power \<open>j\<close> elementwise.  The first column is \<open>x\<close> itself: there
  is no column of the power 0.
\<close>

theorem expand_polynomial_columns:
  assumes "1 \<le> length x" and "1 \<le> degree"
  shows "\<exists>A. expand_polynomial x (int degree) = Inr A \<and> wf_ndarray A \<and>
           nrows A = length x \<and> ncols A = degree \<and>
           (\<forall>i<length x. \<forall>j. 1 \<le> j \<and> j \<le> degree \<longrightarrow> rows A ! i ! (j - 1) = x ! i ^ j) \<and>
           (\<forall>i<length x. rows A ! i ! 0 = x ! i)"
proof -
  let ?A = "\<lparr>nrows = length x, ncols = nat (int degree),
             rows = map (\<lambda>i. map (\<lambda>p. x ! i powi p) [1..int degree]) [0..<length x]\<rparr>"
  have eq: "expand_polynomial x (int degree) = Inr ?A"
    using assms(2) by (intro expand_polynomial_Inr) simp
  have wf: "wf_ndarray ?A"
    by (simp add: wf_ndarray_def list_all_iff)
  have col: "rows ?A ! i ! (j - 1) = x ! i ^ j"
    if "i < length x" "1 \<le> j" "j \<le> degree" for i j
  proof -
    have "[1..int degree] ! (j - 1) = 1 + int (j - 1)"
      using that by (intro nth_upto) simp
    then have "[1..int degree] ! (j - 1) = int j"
      using that by simp
    then show ?thesis
      using that by (simp add: power_int_of_nat)
  qed
  have first: "rows ?A ! i ! 0 = x ! i" if "i < length x" for i
    using col [of i 1] that assms(2) by simp
  show ?thesis
    using eq wf col first by auto
qed

theorem expand_polynomial_columns_witness:
  "\<exists>A. expand_polynomial [1 / 2, 3 / 2] (int 3) = Inr A \<and> wf_ndarray A \<and>
        nrows A = 2 \<and> ncols A = 3 \<and>
        rows A ! 1 ! (2 - 1) = (3 / 2) ^ 2 \<and> rows A ! 1 ! 0 = 3 / 2"
proof -
  have "1 \<le> length [1 / 2, 3 / 2 :: real]" and "1 \<le> (3::nat)"
    by simp_all
  from expand_polynomial_columns [OF this]
  obtain A where A: "expand_polynomial [1 / 2, 3 / 2] (int 3) = Inr A" "wf_ndarray A"
      "nrows A = length [1 / 2, 3 / 2 :: real]" "ncols A = 3"
      "\<forall>i<length [1 / 2, 3 / 2 :: real]. \<forall>j. 1 \<le> j \<and> j \<le> 3 \<longrightarrow>
          rows A ! i ! (j - 1) = [1 / 2, 3 / 2] ! i ^ j"
      "\<forall>i<length [1 / 2, 3 / 2 :: real]. rows A ! i ! 0 = [1 / 2, 3 / 2] ! i"
    by blast
  have "rows A ! 1 ! (2 - 1) = (3 / 2) ^ 2"
    using A(5) [rule_format, of 1 2] by simp
  moreover have "rows A ! 1 ! 0 = 3 / 2"
    using A(6) by simp
  ultimately show ?thesis
    using A(1-4) by auto
qed

lemma sqrt_2pi_gt_1: "1 < sqrt (2 * pi)"
proof -
  have "1 < 2 * pi"
    using pi_ge_two by simp
  then show ?thesis
    by simp
qed

text \<open>
  C3 (as the code has it).  \<open>gaussian_basis\<close> evaluates SciPy's normal density, which
  is normalised: for centres \<open>mus\<close> and a bandwidth \<open>sigma > 0\<close>, the entry in row
  \<open>i\<close> and column \<open>j\<close> of the design matrix is
  \<open>exp (- (x\<^sub>i - mu\<^sub>j)\<^sup>2 / (2 sigma\<^sup>2)) / (sigma sqrt (2 pi))\<close>.  Column \<open>j\<close> attains its
  maximum \<open>1 / (sigma sqrt (2 pi))\<close> where the input equals the centre, and is
  strictly smaller the further the input is from the centre.
\<close>

theorem expand_gaussian_columns:
  assumes "0 < sigma" and "mus \<noteq> []"
  shows "\<exists>A. expand_gaussian x mus sigma = Inr A \<and> wf_ndarray A \<and>
           nrows A = length x \<and> ncols A = length mus \<and>
           (\<forall>i<length x. \<forall>j<length mus.
              rows A ! i ! j =
                Some (exp (- ((x ! i - mus ! j)\<^sup>2) / (2 * sigma\<^sup>2)) / (sigma * sqrt (2 * pi)))) \<and>
           (\<forall>i<length x. \<forall>j<length mus.
              x ! i = mus ! j \<longrightarrow> rows A ! i ! j = Some (1 / (sigma * sqrt (2 * pi)))) \<and>
           (\<forall>i<length x. \<forall>j<length mus. \<forall>v.
              rows A ! i ! j = Some v \<longrightarrow> v \<le> 1 / (sigma * sqrt (2 * pi))) \<and>
           (\<forall>i<length x. \<forall>k<length x. \<forall>j<length mus. \<forall>u v.
              \<bar>x ! i - mus ! j\<bar> < \<bar>x ! k - mus ! j\<bar> \<and>
              rows A ! i ! j = Some u \<and> rows A ! k ! j = Some v \<longrightarrow> v < u)"
proof -
  let ?g = "\<lambda>d::real. exp (- (d\<^sup>2) / (2 * sigma\<^sup>2)) / (sigma * sqrt (2 * pi))"
  let ?A = "\<lparr>nrows = length x, ncols = length mus,
             rows = map (\<lambda>xi. map (\<lambda>mu. norm_pdf mu sigma xi) mus) x\<rparr>"
  have eq: "expand_gaussian x mus sigma = Inr ?A"
    by (rule expand_gaussian_rows [OF assms(2)])
  have wf: "wf_ndarray ?A"
    by (simp add: wf_ndarray_def list_all_iff)
  have entry: "rows ?A ! i ! j = Some (?g (x ! i - mus ! j))"
    if "i < length x" "j < length mus" for i j
    using that by (simp add: norm_pdf_closed_form [OF assms(1)])
  have peak: "rows ?A ! i ! j = Some (1 / (sigma * sqrt (2 * pi)))"
    if "i < length x" "j < length mus" "x ! i = mus ! j" for i j
    using entry [OF that(1,2)] that(3) by simp
  have bound: "v \<le> 1 / (sigma * sqrt (2 * pi))"
    if "i < length x" "j < length mus" "rows ?A ! i ! j = Some v" for i j v
  proof -
    have "v = ?g (x ! i - mus ! j)"
      using entry [OF that(1,2)] that(3) by simp
    then show ?thesis
      using bump_le_peak [OF assms(1), of "x ! i - mus ! j"] by simp
  qed
  have decr: "v < u"
    if "i < length x" "k < length x" "j < length mus"
      "\<bar>x ! i - mus ! j\<bar> < \<bar>x ! k - mus ! j\<bar>"
      "rows ?A ! i ! j = Some u" "rows ?A ! k ! j = Some v" for i k j u v
  proof -
    have "u = ?g (x ! i - mus ! j)"
      using entry [OF that(1,3)] that(5) by simp
    moreover have "v = ?g (x ! k - mus ! j)"
      using entry [OF that(2,3)] that(6) by simp
    ultimately show ?thesis
      using bump_strict_mono [OF assms(1) that(4)] by simp
  qed
  show ?thesis
  proof (intro exI [of _ ?A] conjI)
    show "expand_gaussian x mus sigma = Inr ?A"
      by (rule eq)
    show "wf_ndarray ?A"
      by (rule wf)
    show "nrows ?A = length x" and "ncols ?A = length mus"
      by simp_all
    show "\<forall>i<length x. \<forall>j<length mus.
            rows ?A ! i ! j = Some (?g (x ! i - mus ! j))"
      using entry by blast
    show "\<forall>i<length x. \<forall>j<length mus.
            x ! i = mus ! j \<longrightarrow> rows ?A ! i ! j = Some (1 / (sigma * sqrt (2 * pi)))"
      using peak by blast
    show "\<forall>i<length x. \<forall>j<length mus. \<forall>v.
            rows ?A ! i ! j = Some v \<longrightarrow> v \<le> 1 / (sigma * sqrt (2 * pi))"
      using bound by blast
    show "\<forall>i<length x. \<forall>k<length x. \<forall>j<length mus. \<forall>u v.
            \<bar>x ! i - mus ! j\<bar> < \<bar>x ! k - mus ! j\<bar> \<and>
            rows ?A ! i ! j = Some u \<and> rows ?A ! k ! j = Some v \<longrightarrow> v < u"
      using decr by blast
  qed
qed

theorem expand_gaussian_columns_witness:
  "\<exists>A. expand_gaussian [0, 1] [0] 1 = Inr A \<and> nrows A = 2 \<and> ncols A = 1 \<and>
       rows A ! 0 ! 0 = Some (1 / (1 * sqrt (2 * pi))) \<and>
       (\<exists>u v. rows A ! 0 ! 0 = Some u \<and> rows A ! 1 ! 0 = Some v \<and> v < u)"
proof -
  have "(0::real) < 1" and "[0::real] \<noteq> []"
    by simp_all
  from expand_gaussian_columns [OF this, of "[0, 1]"]
  obtain A where A: "expand_gaussian [0, 1 :: real] [0 :: real] 1 = Inr A \<and> wf_ndarray A \<and>
      nrows A = length [0, 1 :: real] \<and> ncols A = length [0 :: real] \<and>
      (\<forall>i<length [0, 1 :: real]. \<forall>j<length [0 :: real].
         rows A ! i ! j =
           Some (exp (- (([0, 1 :: real] ! i - [0 :: real] ! j)\<^sup>2) / (2 * 1\<^sup>2)) / (1 * sqrt (2 * pi)))) \<and>
      (\<forall>i<length [0, 1 :: real]. \<forall>j<length [0 :: real].
         [0, 1 :: real] ! i = [0 :: real] ! j \<longrightarrow> rows A ! i ! j = Some (1 / (1 * sqrt (2 * pi)))) \<and>
      (\<forall>i<length [0, 1 :: real]. \<forall>j<length [0 :: real]. \<forall>v.
         rows A ! i ! j = Some v \<longrightarrow> v \<le> 1 / (1 * sqrt (2 * pi))) \<and>
      (\<forall>i<length [0, 1 :: real]. \<forall>k<length [0, 1 :: real]. \<forall>j<length [0 :: real]. \<forall>u v.
         \<bar>[0, 1 :: real] ! i - [0 :: real] ! j\<bar> < \<bar>[0, 1 :: real] ! k - [0 :: real] ! j\<bar> \<and>
         rows A ! i ! j = Some u \<and> rows A ! k ! j = Some v \<longrightarrow> v < u)"
    by (elim exE) (rule that)
  note eq = A [THEN conjunct1]
  note shape = A [THEN conjunct2, THEN conjunct2, THEN conjunct1]
    A [THEN conjunct2, THEN conjunct2, THEN conjunct2, THEN conjunct1]
  note entry = A [THEN conjunct2, THEN conjunct2, THEN conjunct2, THEN conjunct2,
      THEN conjunct1, rule_format]
  note decr = A [THEN conjunct2, THEN conjunct2, THEN conjunct2, THEN conjunct2,
      THEN conjunct2, THEN conjunct2, THEN conjunct2, rule_format]
  have e0: "rows A ! 0 ! 0 = Some (1 / (1 * sqrt (2 * pi)))"
    using entry [of 0 0] by simp
  have e1: "rows A ! 1 ! 0 = Some (exp (- 1 / 2) / (1 * sqrt (2 * pi)))"
    using entry [of 1 0] by simp
  have lt: "exp (- 1 / 2) / (1 * sqrt (2 * pi)) < 1 / (1 * sqrt (2 * pi))"
    by (rule decr [of 0 1 0]) (simp_all only: e0 e1, simp_all)
  show ?thesis
  proof (intro exI [of _ A] conjI)
    show "expand_gaussian [0, 1] [0] 1 = Inr A"
      by (rule eq)
    show "nrows A = 2" and "ncols A = 1"
      using shape by simp_all
    show "rows A ! 0 ! 0 = Some (1 / (1 * sqrt (2 * pi)))"
      by (rule e0)
    show "\<exists>u v. rows A ! 0 ! 0 = Some u \<and> rows A ! 1 ! 0 = Some v \<and> v < u"
      using e0 e1 lt by blast
  qed
qed

text \<open>
  The unnormalised bump \<open>exp (- (x - c)\<^sup>2 / (2 b\<^sup>2))\<close> with maximum 1 is not what the
  code computes: at \<open>x = c = 0\<close> and \<open>b = 1\<close> the entry is \<open>1 / sqrt (2 pi) < 1\<close>.
\<close>

theorem expand_gaussian_unnormalised_counterexample:
  "\<exists>A v. expand_gaussian [0] [0] 1 = Inr A \<and> rows A ! 0 ! 0 = Some v \<and>
         v \<noteq> exp (- ((0 - 0)\<^sup>2) / (2 * 1\<^sup>2)) \<and> v < 1"
proof -
  have "expand_gaussian [0] [0] 1 =
          Inr \<lparr>nrows = 1, ncols = 1, rows = [[norm_pdf 0 1 0]]\<rparr>"
    using expand_gaussian_rows [of "[0]" "[0]" 1] by simp
  moreover have "norm_pdf 0 1 0 = Some (1 / sqrt (2 * pi))"
    by (simp add: norm_pdf_def norm_pdf_std_def)
  moreover have "1 / sqrt (2 * pi) < 1"
    using sqrt_2pi_gt_1 by simp
  ultimately show ?thesis
    by simp
qed

text \<open>
  C10.  Basis expansion is row-local, for the polynomial and for the Gaussian family:
  expanding a concatenation of two inputs stacks the two expansions vertically, and
  row \<open>i\<close> of the design matrix of \<open>xs\<close> is the single row of the design matrix of
  the one-element input \<open>[xs ! i]\<close>.
\<close>

theorem expansion_row_local:
  "(1 \<le> degree \<longrightarrow>
      (\<exists>A B. expand_polynomial xs degree = Inr A \<and> expand_polynomial ys degree = Inr B \<and>
             expand_polynomial (xs @ ys) degree = vstack A B)) \<and>
   (mus \<noteq> [] \<longrightarrow>
      (\<exists>A B. expand_gaussian xs mus sigma = Inr A \<and> expand_gaussian ys mus sigma = Inr B \<and>
             expand_gaussian (xs @ ys) mus sigma = vstack A B)) \<and>
   (1 \<le> degree \<and> i < length xs \<longrightarrow>
      (\<exists>A R. expand_polynomial xs degree = Inr A \<and>
             expand_polynomial [xs ! i] degree = Inr R \<and> rows R = [rows A ! i])) \<and>
   (mus \<noteq> [] \<and> i < length xs \<longrightarrow>
      (\<exists>A R. expand_gaussian xs mus sigma = Inr A \<and>
             expand_gaussian [xs ! i] mus sigma = Inr R \<and> rows R = [rows A ! i]))"
proof (intro conjI impI)
  assume d: "1 \<le> degree"
  show "\<exists>A B. expand_polynomial xs degree = Inr A \<and> expand_polynomial ys degree = Inr B \<and>
          expand_polynomial (xs @ ys) degree = vstack A B"
    by (simp add: expand_polynomial_rows [OF d] vstack_def)
next
  assume m: "mus \<noteq> []"
  show "\<exists>A B. expand_gaussian xs mus sigma = Inr A \<and> expand_gaussian ys mus sigma = Inr B \<and>
          expand_gaussian (xs @ ys) mus sigma = vstack A B"
    by (simp add: expand_gaussian_rows [OF m] vstack_def)
next
  assume "1 \<le> degree \<and> i < length xs"
  then have d: "1 \<le> degree" and i: "i < length xs"
    by simp_all
  show "\<exists>A R. expand_polynomial xs degree = Inr A \<and>
          expand_polynomial [xs ! i] degree = Inr R \<and> rows R = [rows A ! i]"
    using i by (simp add: expand_polynomial_rows [OF d])
next
  assume "mus \<noteq> [] \<and> i < length xs"
  then have m: "mus \<noteq> []" and i: "i < length xs"
    by simp_all
  show "\<exists>A R. expand_gaussian xs mus sigma = Inr A \<and>
          expand_gaussian [xs ! i] mus sigma = Inr R \<and> rows R = [rows A ! i]"
    using i by (simp add: expand_gaussian_rows [OF m])
qed

theorem expansion_row_local_witness:
  "(\<exists>A B. expand_polynomial [1, 2] 2 = Inr A \<and> expand_polynomial [3] 2 = Inr B \<and>
          expand_polynomial ([1, 2] @ [3]) 2 = vstack A B) \<and>
   (\<exists>A B. expand_gaussian [1, 2] [0] 1 = Inr A \<and> expand_gaussian [3] [0] 1 = Inr B \<and>
          expand_gaussian ([1, 2] @ [3]) [0] 1 = vstack A B) \<and>
   (\<exists>A R. expand_polynomial [1, 2] 2 = Inr A \<and>
          expand_polynomial [[1, 2] ! 1] 2 = Inr R \<and> rows R = [rows A ! 1]) \<and>
   (\<exists>A R. expand_gaussian [1, 2] [0] 1 = Inr A \<and>
          expand_gaussian [[1, 2] ! 1] [0] 1 = Inr R \<and> rows R = [rows A ! 1])"
  using expansion_row_local [of 2 "[1, 2]" "[3]" "[0]" 1 1]
  by simp

section \<open>Properties of the model\<close>

lemma log_density_Normal_expand:
  assumes "0 < s"
  shows "log_density_Normal m s v = - ((v - m)\<^sup>2) / (2 * s\<^sup>2) - ln s - ln (2 * pi) / 2"
proof -
  have pos: "0 < s * sqrt (2 * pi)"
    using assms by simp
  have "ln (exp (- ((v - m)\<^sup>2) / (2 * s\<^sup>2)) / (s * sqrt (2 * pi))) =
          ln (exp (- ((v - m)\<^sup>2) / (2 * s\<^sup>2))) - ln (s * sqrt (2 * pi))"
    by (rule ln_divide_pos) (use pos in simp_all)
  also have "ln (s * sqrt (2 * pi)) = ln s + ln (sqrt (2 * pi))"
    by (rule ln_mult_pos) (use assms in simp_all)
  also have "ln (sqrt (2 * pi)) = ln (2 * pi) / 2"
    by (rule ln_sqrt) simp
  finally show ?thesis
    by (simp add: log_density_Normal_def Normal_density_def)
qed

lemma Normal_logp_eq:
  assumes "0 < sigma"
  shows "Normal_logp mu sigma v = Some (log_density_Normal mu sigma v)"
proof -
  have s2: "0 < sigma\<^sup>2"
    using assms by simp
  have "1 / sigma\<^sup>2 / pi / 2 = 1 / (sigma\<^sup>2 * (2 * pi))"
    by simp
  also have "ln \<dots> = ln 1 - ln (sigma\<^sup>2 * (2 * pi))"
    by (rule ln_divide_pos) (use s2 in simp_all)
  also have "ln (sigma\<^sup>2 * (2 * pi)) = ln (sigma\<^sup>2) + ln (2 * pi)"
    by (rule ln_mult_pos) (use s2 in simp_all)
  also have "ln (sigma\<^sup>2) = 2 * ln sigma"
    using assms by (simp add: ln_realpow)
  finally have tau: "ln (1 / sigma\<^sup>2 / pi / 2) = - (2 * ln sigma + ln (2 * pi))"
    by simp
  have alg: "(- (1 / sigma\<^sup>2) * (v - mu)\<^sup>2 + ln (1 / sigma\<^sup>2 / pi / 2)) / 2 =
          - ((v - mu)\<^sup>2) / (2 * sigma\<^sup>2) - ln sigma - ln (2 * pi) / 2"
    unfolding tau by (simp add: field_simps)
  have "Normal_logp mu sigma v =
          Some ((- (1 / sigma\<^sup>2) * (v - mu)\<^sup>2 + ln (1 / sigma\<^sup>2 / pi / 2)) / 2)"
    using assms by (simp only: Normal_logp_def Let_def if_True)
  also have "\<dots> = Some (log_density_Normal mu sigma v)"
    by (simp only: alg log_density_Normal_expand [OF assms])
  finally show ?thesis .
qed

lemma logp_sum_Some:
  "logp_sum (map (\<lambda>a. Some (f a)) xs) = Some (sum_list (map f xs))"
  by (induction xs) simp_all

lemma sum_list_map2_nth:
  assumes "length xs = length ys"
  shows "sum_list (map2 f xs ys) = (\<Sum>j<length xs. f (xs ! j) (ys ! j))"
proof -
  have "sum_list (map2 f xs ys) = (\<Sum>j = 0..<length (map2 f xs ys). map2 f xs ys ! j)"
    by (rule sum_list_sum_nth)
  also have "\<dots> = (\<Sum>j = 0..<length xs. f (xs ! j) (ys ! j))"
    using assms by (intro sum.cong) simp_all
  finally show ?thesis
    by (simp add: lessThan_atLeast0)
qed

lemma sum_list_map_nth:
  "sum_list (map f xs) = (\<Sum>j<length xs. f (xs ! j))"
proof -
  have "sum_list (map f xs) = (\<Sum>j = 0..<length (map f xs). map f xs ! j)"
    by (rule sum_list_sum_nth)
  also have "\<dots> = (\<Sum>j = 0..<length xs. f (xs ! j))"
    by (intro sum.cong) simp_all
  finally show ?thesis
    by (simp add: lessThan_atLeast0)
qed

lemma dot_transpose:
  assumes "wf_ndarray Phi" and "length w = ncols Phi"
  shows "dot w (ndarray_T Phi) =
           Inr (map (\<lambda>i. \<Sum>j<length w. w ! j * rows Phi ! i ! j) [0..<nrows Phi])"
proof -
  have len: "length (rows Phi) = nrows Phi"
    using assms(1) by (simp add: wf_ndarray_def)
  have entry: "sum_list (map2 (\<lambda>vj r. vj * r ! i) w (rows (ndarray_T Phi))) =
                 (\<Sum>j<length w. w ! j * rows Phi ! i ! j)"
    if "i < nrows Phi" for i
  proof -
    have l: "length w = length (rows (ndarray_T Phi))"
      using assms(2) by (simp add: ndarray_T_def)
    have "sum_list (map2 (\<lambda>vj r. vj * r ! i) w (rows (ndarray_T Phi))) =
            (\<Sum>j<length w. w ! j * rows (ndarray_T Phi) ! j ! i)"
      by (rule sum_list_map2_nth [OF l])
    also have "\<dots> = (\<Sum>j<length w. w ! j * rows Phi ! i ! j)"
      using that assms(2) len by (intro sum.cong) (simp_all add: ndarray_T_def)
    finally show ?thesis .
  qed
  have "map (\<lambda>i. sum_list (map2 (\<lambda>vj r. vj * r ! i) w (rows (ndarray_T Phi)))) [0..<nrows Phi] =
        map (\<lambda>i. \<Sum>j<length w. w ! j * rows Phi ! i ! j) [0..<nrows Phi]"
    using entry by simp
  then show ?thesis
    using assms(2) by (simp add: dot_def ndarray_T_def)
qed

lemma model_mu_eq:
  assumes "wf_ndarray Phi" and "length w = ncols Phi"
  shows "model_mu Phi w0 w =
           Inr (map (\<lambda>i. w0 + (\<Sum>j<length w. w ! j * rows Phi ! i ! j)) [0..<nrows Phi])"
  by (simp add: model_mu_def dot_transpose [OF assms] comp_def)

lemma model_logp_closed_form:
  assumes "0 < noise" and "wf_ndarray Phi" and "length w = ncols Phi"
    and "length t = nrows Phi"
  shows "model_logp noise Phi t w0 w =
           Inr (Some (log_density_Normal 0 10 w0 +
                      (\<Sum>j<length w. log_density_Normal 0 10 (w ! j)) +
                      (\<Sum>i<length t.
                          log_density_Normal
                            (w0 + (\<Sum>j<length w. w ! j * rows Phi ! i ! j)) noise (t ! i))))"
proof -
  let ?mu = "map (\<lambda>i. w0 + (\<Sum>j<length w. w ! j * rows Phi ! i ! j)) [0..<nrows Phi]"
  have mu: "model_mu Phi w0 w = Inr ?mu"
    by (rule model_mu_eq [OF assms(2,3)])
  have len: "length ?mu = length t"
    using assms(4) by simp
  have p0: "Normal_logp 0 10 w0 = Some (log_density_Normal 0 10 w0)"
    by (rule Normal_logp_eq) simp
  have "map (Normal_logp 0 10) w = map (\<lambda>a. Some (log_density_Normal 0 10 a)) w"
    by (simp add: Normal_logp_eq)
  then have pw: "logp_sum (map (Normal_logp 0 10) w) =
                   Some (\<Sum>j<length w. log_density_Normal 0 10 (w ! j))"
    by (simp only: logp_sum_Some sum_list_map_nth)
  have "map2 (\<lambda>m ti. Normal_logp m noise ti) ?mu t =
          map (\<lambda>a. Some ((\<lambda>(m, ti). log_density_Normal m noise ti) a)) (zip ?mu t)"
    by (simp add: Normal_logp_eq [OF assms(1)] split_def)
  then have "logp_sum (map2 (\<lambda>m ti. Normal_logp m noise ti) ?mu t) =
               Some (sum_list (map2 (\<lambda>m ti. log_density_Normal m noise ti) ?mu t))"
    by (simp only: logp_sum_Some)
  also have "sum_list (map2 (\<lambda>m ti. log_density_Normal m noise ti) ?mu t) =
               (\<Sum>i<length ?mu. log_density_Normal (?mu ! i) noise (t ! i))"
    by (rule sum_list_map2_nth [OF len])
  also have "\<dots> = (\<Sum>i<length t.
                 log_density_Normal (w0 + (\<Sum>j<length w. w ! j * rows Phi ! i ! j)) noise (t ! i))"
    using assms(4) by (intro sum.cong) simp_all
  finally have pt: "logp_sum (map2 (\<lambda>m ti. Normal_logp m noise ti) ?mu t) =
      Some (\<Sum>i<length t.
              log_density_Normal (w0 + (\<Sum>j<length w. w ! j * rows Phi ! i ! j)) noise (t ! i))" .
  have "model_logp noise Phi t w0 w =
          Inr (logp_sum [Normal_logp 0 10 w0, logp_sum (map (Normal_logp 0 10) w),
                         logp_sum (map2 (\<lambda>m ti. Normal_logp m noise ti) ?mu t)])"
    using len by (simp add: model_logp_def mu broadcast_observed_def del: logp_sum.simps)
  then have "model_logp noise Phi t w0 w =
          Inr (Some (log_density_Normal 0 10 w0 +
                     ((\<Sum>j<length w. log_density_Normal 0 10 (w ! j)) +
                      ((\<Sum>i<length t.
                          log_density_Normal
                            (w0 + (\<Sum>j<length w. w ! j * rows Phi ! i ! j)) noise (t ! i)) + 0))))"
    by (simp only: p0 pw pt logp_sum.simps option.case)
  then show ?thesis
    by (simp only: add_0_right add.assoc)
qed

text \<open>
  C1.  For a positive observation noise, weights \<open>w\<close> of length \<open>M\<close>, an \<open>N \<times> M\<close>
  design matrix and \<open>N\<close> targets, the model's joint log-density is the log-density of
  Normal(0, 10) at \<open>w0\<close>, plus the log-density of Normal(0, 10) at each component of
  \<open>w\<close>, plus the sum over the observations \<open>i\<close> of the log-density of
  Normal(\<open>w0 + w \<cdot> Phi\<^sub>i\<close>, \<open>noise\<close>) at \<open>t\<^sub>i\<close>.
\<close>

theorem model_logp_log_joint:
  assumes "0 < noise" and "wf_ndarray Phi" and "length w = ncols Phi"
    and "length t = nrows Phi"
  shows "model_logp noise Phi t w0 w =
           Inr (Some (log_density_Normal 0 10 w0 +
                      (\<Sum>j<length w. log_density_Normal 0 10 (w ! j)) +
                      (\<Sum>i<length t.
                          log_density_Normal
                            (w0 + (\<Sum>j<length w. w ! j * rows Phi ! i ! j)) noise (t ! i))))"
  by (rule model_logp_closed_form [OF assms])

theorem model_logp_log_joint_witness:
  "model_logp 1 \<lparr>nrows = 2, ncols = 1, rows = [[0], [1]]\<rparr> [1, 3] 1 [2] =
     Inr (Some (log_density_Normal 0 10 1 + log_density_Normal 0 10 2 +
                (log_density_Normal (1 + 2 * 0) 1 1 + log_density_Normal (1 + 2 * 1) 1 3)))"
proof -
  have "(0::real) < 1"
    by simp
  moreover have "wf_ndarray \<lparr>nrows = 2, ncols = 1, rows = [[0::real], [1]]\<rparr>"
    by (simp add: wf_ndarray_def)
  moreover have "length [2::real] = ncols \<lparr>nrows = 2, ncols = 1, rows = [[0::real], [1]]\<rparr>"
    by simp
  moreover have "length [1, 3::real] = nrows \<lparr>nrows = 2, ncols = 1, rows = [[0::real], [1]]\<rparr>"
    by simp
  ultimately have "model_logp 1 \<lparr>nrows = 2, ncols = 1, rows = [[0], [1]]\<rparr> [1, 3] 1 [2] =
      Inr (Some (log_density_Normal 0 10 1 +
                 (\<Sum>j<length [2::real]. log_density_Normal 0 10 ([2] ! j)) +
                 (\<Sum>i<length [1, 3::real].
                     log_density_Normal
                       (1 + (\<Sum>j<length [2::real].
                               [2] ! j * rows \<lparr>nrows = 2, ncols = 1, rows = [[0], [1]]\<rparr> ! i ! j))
                       1 ([1, 3] ! i))))"
    by (rule model_logp_log_joint)
  then show ?thesis
    by (simp add: lessThan_Suc numeral_2_eq_2)
qed

section \<open>Properties of posterior predictive sampling\<close>

lemma tau_scale:
  fixes sigma :: real
  assumes "sigma \<noteq> 0"
  shows "(1 / sigma\<^sup>2) powr (- 1 / 2) = \<bar>sigma\<bar>"
proof -
  have pos: "0 < 1 / sigma\<^sup>2"
    using assms by simp
  have "(1 / sigma\<^sup>2) powr (- 1 / 2) = inverse ((1 / sigma\<^sup>2) powr (1 / 2))"
    using powr_minus [of "1 / sigma\<^sup>2" "1 / 2"] by simp
  also have "(1 / sigma\<^sup>2) powr (1 / 2) = sqrt (1 / sigma\<^sup>2)"
    using pos by (simp add: powr_half_sqrt)
  also have "sqrt (1 / sigma\<^sup>2) = 1 / \<bar>sigma\<bar>"
    by (simp add: real_sqrt_divide)
  finally show ?thesis
    by simp
qed

lemma Normal_random_scale:
  assumes "sigma \<noteq> 0"
  shows "Normal_random mu (1 / sigma\<^sup>2) z = mu + \<bar>sigma\<bar> * z"
  by (simp only: Normal_random_def tau_scale [OF assms])

lemma pm_Model_zero_cols:
  "ncols P = 0 \<Longrightarrow> pm_Model P noise t = Inl ValueError"
  by (simp add: pm_Model_def)

lemma pm_Model_zero_noise:
  "ncols P \<noteq> 0 \<Longrightarrow> pm_Model P 0 t = Inl ZeroDivisionError"
  by (simp add: pm_Model_def get_tau_sigma_def)

lemma pm_Model_Inr:
  assumes "pm_Model P noise t = Inr m"
  shows "ncols P \<noteq> 0 \<and> noise \<noteq> 0 \<and>
         m = \<lparr>m_w_r_shape = ncols P, m_tau = 1 / noise\<^sup>2, m_sigma = noise, m_observed = t\<rparr>"
  using assms
  by (auto simp: pm_Model_def get_tau_sigma_def split: if_splits sum.splits)

lemma pm_Model_ok:
  assumes "ncols P \<noteq> 0" and "noise \<noteq> 0" and "length t = nrows P"
  shows "pm_Model P noise t =
           Inr \<lparr>m_w_r_shape = ncols P, m_tau = 1 / noise\<^sup>2, m_sigma = noise, m_observed = t\<rparr>"
  using assms by (simp add: pm_Model_def get_tau_sigma_def broadcast_observed_def)

lemma collect_map_Inr:
  assumes "\<And>k. k \<in> set ks \<Longrightarrow> f k = Inr (g k)"
  shows "collect (map f ks) = Inr (map g ks)"
  using assms by (induction ks) simp_all

lemma collect_Inr_nth:
  assumes "collect rs = Inr vs"
  shows "length vs = length rs \<and> (\<forall>k<length rs. rs ! k = Inr (vs ! k))"
  using assms
proof (induction rs arbitrary: vs)
  case Nil
  then show ?case by simp
next
  case (Cons r rs)
  from Cons.prems obtain v vs' where r: "r = Inr v" and c: "collect rs = Inr vs'"
    and vs: "vs = v # vs'"
    by (auto split: sum.splits)
  from Cons.IH [OF c] have len: "length vs' = length rs"
    and nth: "\<And>k. k < length rs \<Longrightarrow> rs ! k = Inr (vs' ! k)"
    by simp_all
  show ?case
    using r vs len nth by (auto simp: nth_Cons split: nat.splits)
qed

lemma draw_t_obs_eq:
  assumes "wf_ndarray Phi" and "length (w_r p) = ncols Phi"
  shows "draw_t_obs m Phi p z =
           Inr (map (\<lambda>i. Normal_random
                           (w_0 p + (\<Sum>j<length (w_r p).
                                       w_r p ! j * rows Phi ! (if nrows Phi = 1 then 0 else i) ! j))
                           (m_tau m) (z i))
                  [0..<(if nrows Phi = 1 then length (m_observed m) else nrows Phi)])"
proof -
  let ?f = "\<lambda>i. w_0 p + (\<Sum>j<length (w_r p). w_r p ! j * rows Phi ! i ! j)"
  let ?mu = "map ?f [0..<nrows Phi]"
  have mu: "model_mu Phi (w_0 p) (w_r p) = Inr ?mu"
    by (rule model_mu_eq [OF assms])
  show ?thesis
  proof (cases "nrows Phi = 1")
    case True
    then have "?mu ! 0 = ?f 0"
      by simp
    with True show ?thesis
      by (simp add: draw_t_obs_def mu)
  next
    case False
    have "map (\<lambda>i. Normal_random (?mu ! i) (m_tau m) (z i)) [0..<nrows Phi] =
          map (\<lambda>i. Normal_random (?f i) (m_tau m) (z i)) [0..<nrows Phi]"
      by (rule map_cong) simp_all
    with False show ?thesis
      by (simp add: draw_t_obs_def mu)
  qed
qed

lemma draw_t_obs_Inr_shape:
  assumes "draw_t_obs m Phi p z = Inr d"
  shows "length (w_r p) = ncols Phi \<and>
         length d = (if nrows Phi = 1 then length (m_observed m) else nrows Phi)"
  using assms
  by (auto simp: draw_t_obs_def model_mu_def dot_def ndarray_T_def split: sum.splits if_splits)

lemma sample_posterior_predictive_eq:
  assumes "trace \<noteq> []" and "wf_ndarray Phi"
    and "list_all (\<lambda>p. length (w_r p) = ncols Phi) trace" and "0 < samples"
  shows "sample_posterior_predictive trace m Phi samples pick z =
           Inr \<lparr>nrows = samples,
                ncols = (if nrows Phi = 1 then length (m_observed m) else nrows Phi),
                rows = map (\<lambda>k. map (\<lambda>i. Normal_random
                                 (w_0 (trace ! (pick k mod length trace)) +
                                  (\<Sum>j<length (w_r (trace ! (pick k mod length trace))).
                                      w_r (trace ! (pick k mod length trace)) ! j *
                                      rows Phi ! (if nrows Phi = 1 then 0 else i) ! j))
                                 (m_tau m) (z k i))
                        [0..<(if nrows Phi = 1 then length (m_observed m) else nrows Phi)])
                         [0..<samples]\<rparr>"
proof -
  have shape: "length (w_r (trace ! (pick k mod length trace))) = ncols Phi" for k
  proof -
    have "pick k mod length trace < length trace"
      using assms(1) by simp
    then show ?thesis
      using assms(3) by (simp add: list_all_length)
  qed
  have "collect (map (\<lambda>k. draw_t_obs m Phi (trace ! (pick k mod length trace)) (z k))
                   [0..<samples]) =
        Inr (map (\<lambda>k. map (\<lambda>i. Normal_random
                                 (w_0 (trace ! (pick k mod length trace)) +
                                  (\<Sum>j<length (w_r (trace ! (pick k mod length trace))).
                                      w_r (trace ! (pick k mod length trace)) ! j *
                                      rows Phi ! (if nrows Phi = 1 then 0 else i) ! j))
                                 (m_tau m) (z k i))
                        [0..<(if nrows Phi = 1 then length (m_observed m) else nrows Phi)])
                         [0..<samples])"
    by (rule collect_map_Inr) (rule draw_t_obs_eq [OF assms(2) shape])
  then show ?thesis
    using assms(1,4) by (simp add: sample_posterior_predictive_def)
qed

lemma sample_posterior_predictive_Inr_shape:
  assumes "sample_posterior_predictive trace m Phi samples pick z = Inr P"
  shows "nrows P = samples \<and>
         ncols P = (if nrows Phi = 1 then length (m_observed m) else nrows Phi) \<and>
         wf_ndarray P \<and> 0 < samples \<and>
         (\<forall>k<samples. length (w_r (trace ! (pick k mod length trace))) = ncols Phi)"
proof -
  let ?rs = "map (\<lambda>k. draw_t_obs m Phi (trace ! (pick k mod length trace)) (z k)) [0..<samples]"
  from assms obtain draws where c: "collect ?rs = Inr draws"
    and P: "P = \<lparr>nrows = samples,
                 ncols = (if nrows Phi = 1 then length (m_observed m) else nrows Phi),
                 rows = draws\<rparr>"
    and pos: "0 < samples"
    by (auto simp: sample_posterior_predictive_def split: if_splits sum.splits)
  from collect_Inr_nth [OF c] have len: "length draws = samples"
    and nth: "\<And>k. k < samples \<Longrightarrow>
        draw_t_obs m Phi (trace ! (pick k mod length trace)) (z k) = Inr (draws ! k)"
    by simp_all
  have each: "length (w_r (trace ! (pick k mod length trace))) = ncols Phi \<and>
              length (draws ! k) = (if nrows Phi = 1 then length (m_observed m) else nrows Phi)"
    if "k < samples" for k
    by (rule draw_t_obs_Inr_shape [OF nth [OF that]])
  have "wf_ndarray P"
    using len each by (simp add: P wf_ndarray_def list_all_length)
  then show ?thesis
    using P each pos by simp
qed

lemma expand_polynomial_demo_x:
  "expand_polynomial [0] 1 = Inr \<lparr>nrows = 1, ncols = 1, rows = [[0]]\<rparr>"
  using expand_polynomial_rows [of 1 "[0]"] by (simp add: upto.simps)

lemma expand_polynomial_demo_x_test:
  "expand_polynomial [0, 1] 1 = Inr \<lparr>nrows = 2, ncols = 1, rows = [[0], [1]]\<rparr>"
  using expand_polynomial_rows [of 1 "[0, 1]"] by (simp add: upto.simps)

lemma sample_posterior_predictive_demo_draws:
  assumes "0 < n"
  shows "sample_posterior_predictive [\<lparr>w_0 = 1, w_r = [2]\<rparr>] m
       \<lparr>nrows = 2, ncols = 1, rows = [[0], [1]]\<rparr> n pk zz =
     Inr \<lparr>nrows = n, ncols = 2,
          rows = map (\<lambda>k. [Normal_random 1 (m_tau m) (zz k 0),
                           Normal_random 3 (m_tau m) (zz k 1)]) [0..<n]\<rparr>"
proof -
  let ?Phi = "\<lparr>nrows = 2, ncols = 1, rows = [[0::real], [1]]\<rparr>"
  let ?tr = "[\<lparr>w_0 = 1, w_r = [2]\<rparr>]"
  have wf: "wf_ndarray ?Phi"
    by (simp add: wf_ndarray_def)
  have sh: "list_all (\<lambda>p. length (w_r p) = ncols ?Phi) ?tr"
    by simp
  have ne: "?tr \<noteq> []"
    by simp
  show ?thesis
    by (simp only: sample_posterior_predictive_eq [OF ne wf sh assms])
      (simp add: numeral_2_eq_2)
qed

lemma sample_posterior_predictive_demo_zero_variates:
  assumes "0 < n"
  shows "sample_posterior_predictive [\<lparr>w_0 = 1, w_r = [2]\<rparr>] m
       \<lparr>nrows = 2, ncols = 1, rows = [[0], [1]]\<rparr> n pk (\<lambda>k i. 0) =
     Inr \<lparr>nrows = n, ncols = 2, rows = replicate n [1, 3]\<rparr>"
  by (simp only: sample_posterior_predictive_demo_draws [OF assms])
    (simp add: map_replicate_trivial Normal_random_def)

lemma pm_Model_demo:
  "pm_Model \<lparr>nrows = 1, ncols = 1, rows = [[0 :: real]]\<rparr> (3 / 10) [1] =
     Inr \<lparr>m_w_r_shape = 1, m_tau = 100 / 9, m_sigma = 3 / 10, m_observed = [1]\<rparr>"
proof -
  have "pm_Model \<lparr>nrows = 1, ncols = 1, rows = [[0 :: real]]\<rparr> (3 / 10) [1] =
     Inr \<lparr>m_w_r_shape = ncols \<lparr>nrows = 1, ncols = 1, rows = [[0 :: real]]\<rparr>,
          m_tau = 1 / (3 / 10)\<^sup>2, m_sigma = 3 / 10, m_observed = [1]\<rparr>"
    by (rule pm_Model_ok) simp_all
  moreover have "1 / (3 / 10 :: real)\<^sup>2 = 100 / 9"
    by (simp add: power2_eq_square)
  ultimately show ?thesis
    by simp
qed

lemma cell_model_demo:
  "cell_model (\<lambda>x. expand_polynomial x 1) demo_notebook = Inr demo_notebook"
  by (simp add: cell_model_def demo_notebook_def expand_polynomial_demo_x pm_Model_demo
      del: One_nat_def)

lemma cell_prediction_demo:
  assumes "0 < n"
  shows "cell_prediction (\<lambda>x. expand_polynomial x 1) n pk (\<lambda>k i. 0) demo_notebook =
     Inr (demo_notebook
            \<lparr>nb_Phi_shared := \<lparr>nrows = 2, ncols = 1, rows = [[0], [1]]\<rparr>,
             nb_predictive_samples := \<lparr>nrows = n, ncols = 2, rows = replicate n [1, 3]\<rparr>\<rparr>)"
  by (simp add: cell_prediction_def demo_notebook_def expand_polynomial_demo_x_test
      sample_posterior_predictive_demo_zero_variates [OF assms] del: One_nat_def)

lemma Normal_density_change_of_variable:
  assumes "0 < s"
  shows "Normal_density mu s v * s = Normal_density 0 1 ((v - mu) / s)"
proof -
  have "((v - mu) / s)\<^sup>2 / 2 = (v - mu)\<^sup>2 / (2 * s\<^sup>2)"
    by (simp add: power_divide)
  then have "- (((v - mu) / s)\<^sup>2) / 2 = - ((v - mu)\<^sup>2) / (2 * s\<^sup>2)"
    by simp
  then show ?thesis
    using assms by (simp add: Normal_density_def)
qed

text \<open>
  C4 (as the code has it).  Take a model that the model block builds from \<open>N \<ge> 1\<close>
  targets and a noise \<open>noise\<close>, which is then not zero, a non-empty trace whose
  weights fit a query design matrix with \<open>K \<ge> 1\<close> rows, and at least one draw.  Then
  predictive draw \<open>k\<close> at query row \<open>i\<close> is the mean \<open>w_0 + w_r \<cdot> Phi\<^sub>i\<close> of the
  posterior sample picked for the draw plus \<open>\<bar>noise\<bar>\<close> times the standard normal variate
  \<open>z k i\<close> of the random source: the location-scale form of a draw from
  Normal(\<open>w_0 + w_r \<cdot> Phi\<^sub>i\<close>, \<open>\<bar>noise\<bar>\<close>).  The map from the variate to the draw is
  inverted by \<open>v \<mapsto> (v - mean) / \<bar>noise\<bar>\<close>, and the change of variable turns the standard
  normal density into the density of Normal(mean, \<open>\<bar>noise\<bar>\<close>).  A single query row is
  broadcast to the \<open>N\<close> targets.  With the noise 0 the model block raises
  \<^verbatim>\<open>ZeroDivisionError\<close>, so there is no noiseless predictive draw; with the single
  posterior sample \<open>w_0 = 1\<close>, \<open>w_r = [2]\<close> and the query design matrix \<open>[[0], [1]]\<close>
  every predictive draw is \<open>[1 + \<bar>noise\<bar> z\<^sub>0, 3 + \<bar>noise\<bar> z\<^sub>1]\<close>.
\<close>

theorem posterior_predictive_draws:
  assumes "pm_Model P noise t = Inr m" and "length t = nrows P"
    and "trace \<noteq> []" and "wf_ndarray Phi"
    and "list_all (\<lambda>p. length (w_r p) = ncols Phi) trace" and "0 < samples"
    and "1 \<le> length t" and "1 \<le> nrows Phi"
  shows "sample_posterior_predictive trace m Phi samples pick z =
           Inr \<lparr>nrows = samples,
                ncols = (if nrows Phi = 1 then length t else nrows Phi),
                rows = map (\<lambda>k. map (\<lambda>i. w_0 (trace ! (pick k mod length trace)) +
                                  (\<Sum>j<length (w_r (trace ! (pick k mod length trace))).
                                      w_r (trace ! (pick k mod length trace)) ! j *
                                      rows Phi ! (if nrows Phi = 1 then 0 else i) ! j)
                                  + \<bar>noise\<bar> * z k i)
                        [0..<(if nrows Phi = 1 then length t else nrows Phi)])
                         [0..<samples]\<rparr> \<and>
         noise \<noteq> 0 \<and>
         pm_Model P 0 t = Inl ZeroDivisionError \<and>
         (\<forall>mu v. Normal_random mu (m_tau m) ((v - mu) / \<bar>noise\<bar>) = v) \<and>
         (\<forall>mu v. Normal_density mu \<bar>noise\<bar> v * \<bar>noise\<bar> =
                  Normal_density 0 1 ((v - mu) / \<bar>noise\<bar>)) \<and>
         sample_posterior_predictive [\<lparr>w_0 = 1, w_r = [2]\<rparr>] m
             \<lparr>nrows = 2, ncols = 1, rows = [[0], [1]]\<rparr> samples pick z =
           Inr \<lparr>nrows = samples, ncols = 2,
                rows = map (\<lambda>k. [1 + \<bar>noise\<bar> * z k 0, 3 + \<bar>noise\<bar> * z k 1]) [0..<samples]\<rparr>"
proof -
  from pm_Model_Inr [OF assms(1)] have cols: "ncols P \<noteq> 0" and noise: "noise \<noteq> 0"
    and m: "m = \<lparr>m_w_r_shape = ncols P, m_tau = 1 / noise\<^sup>2, m_sigma = noise,
                 m_observed = t\<rparr>"
    by simp_all
  have tau: "m_tau m = 1 / noise\<^sup>2" and obs: "m_observed m = t"
    by (simp_all add: m)
  have rnd: "Normal_random mu (m_tau m) zz = mu + \<bar>noise\<bar> * zz" for mu zz
    by (simp only: tau Normal_random_scale [OF noise])
  have pos: "0 < \<bar>noise\<bar>"
    using noise by simp
  have c1: "sample_posterior_predictive trace m Phi samples pick z =
           Inr \<lparr>nrows = samples,
                ncols = (if nrows Phi = 1 then length t else nrows Phi),
                rows = map (\<lambda>k. map (\<lambda>i. w_0 (trace ! (pick k mod length trace)) +
                                  (\<Sum>j<length (w_r (trace ! (pick k mod length trace))).
                                      w_r (trace ! (pick k mod length trace)) ! j *
                                      rows Phi ! (if nrows Phi = 1 then 0 else i) ! j)
                                  + \<bar>noise\<bar> * z k i)
                        [0..<(if nrows Phi = 1 then length t else nrows Phi)])
                         [0..<samples]\<rparr>"
    by (simp only: sample_posterior_predictive_eq [OF assms(3,4,5,6)] rnd obs)
  have c3: "pm_Model P 0 t = Inl ZeroDivisionError"
    by (rule pm_Model_zero_noise [OF cols])
  have c4: "Normal_random mu (m_tau m) ((v - mu) / \<bar>noise\<bar>) = v" for mu v
    using pos by (simp add: rnd)
  have c5: "Normal_density mu \<bar>noise\<bar> v * \<bar>noise\<bar> =
              Normal_density 0 1 ((v - mu) / \<bar>noise\<bar>)" for mu v
    by (rule Normal_density_change_of_variable [OF pos])
  have c6: "sample_posterior_predictive [\<lparr>w_0 = 1, w_r = [2]\<rparr>] m
             \<lparr>nrows = 2, ncols = 1, rows = [[0], [1]]\<rparr> samples pick z =
           Inr \<lparr>nrows = samples, ncols = 2,
                rows = map (\<lambda>k. [1 + \<bar>noise\<bar> * z k 0, 3 + \<bar>noise\<bar> * z k 1]) [0..<samples]\<rparr>"
    by (simp only: sample_posterior_predictive_demo_draws [OF assms(6)] rnd)
  from c1 noise c3 c4 c5 c6 show ?thesis
    by (intro conjI allI)
qed

theorem posterior_predictive_draws_witness:
  "sample_posterior_predictive [\<lparr>w_0 = 1, w_r = [2]\<rparr>, \<lparr>w_0 = 0, w_r = [1]\<rparr>]
       \<lparr>m_w_r_shape = 1, m_tau = 4, m_sigma = 1 / 2, m_observed = [1]\<rparr>
       \<lparr>nrows = 2, ncols = 1, rows = [[0], [1]]\<rparr> 2 (\<lambda>k. k) (\<lambda>k i. 1) =
     Inr \<lparr>nrows = 2, ncols = 2, rows = [[3 / 2, 7 / 2], [1 / 2, 3 / 2]]\<rparr> \<and>
   pm_Model \<lparr>nrows = 1, ncols = 1, rows = [[0 :: real]]\<rparr> 0 [1] = Inl ZeroDivisionError"
proof -
  let ?P = "\<lparr>nrows = 1, ncols = 1, rows = [[0 :: real]]\<rparr>"
  let ?m = "\<lparr>m_w_r_shape = 1, m_tau = 4, m_sigma = 1 / 2, m_observed = [1]\<rparr>"
  let ?Phi = "\<lparr>nrows = 2, ncols = 1, rows = [[0::real], [1]]\<rparr>"
  let ?tr = "[\<lparr>w_0 = 1, w_r = [2]\<rparr>, \<lparr>w_0 = 0, w_r = [1]\<rparr>]"
  have "pm_Model ?P (1 / 2) [1] =
     Inr \<lparr>m_w_r_shape = ncols ?P, m_tau = 1 / (1 / 2)\<^sup>2, m_sigma = 1 / 2, m_observed = [1]\<rparr>"
    by (rule pm_Model_ok) simp_all
  moreover have "1 / (1 / 2 :: real)\<^sup>2 = 4"
    by (simp add: power2_eq_square)
  ultimately have pm: "pm_Model ?P (1 / 2) [1] = Inr ?m"
    by simp
  have len: "length [1 :: real] = nrows ?P"
    by simp
  have wf: "wf_ndarray ?Phi"
    by (simp add: wf_ndarray_def)
  have sh: "list_all (\<lambda>p. length (w_r p) = ncols ?Phi) ?tr"
    by simp
  have ne: "?tr \<noteq> []"
    by simp
  have pos: "0 < (2 :: nat)"
    by simp
  have n1: "1 \<le> length [1 :: real]" and k1: "1 \<le> nrows ?Phi"
    by simp_all
  note inst = posterior_predictive_draws [OF pm len ne wf sh pos n1 k1,
      of "\<lambda>k. k" "\<lambda>k i. 1"]
  have "sample_posterior_predictive ?tr ?m ?Phi 2 (\<lambda>k. k) (\<lambda>k i. 1) =
          Inr \<lparr>nrows = 2, ncols = 2, rows = [[3 / 2, 7 / 2], [1 / 2, 3 / 2]]\<rparr>"
    using inst [THEN conjunct1] by (simp add: numeral_2_eq_2)
  moreover have "pm_Model ?P 0 [1] = Inl ZeroDivisionError"
    using inst [THEN conjunct2, THEN conjunct2, THEN conjunct1] .
  ultimately show ?thesis
    by (rule conjI)
qed

text \<open>
  The noiseless scenario does not run: with the noise 0 the model cell raises
  \<^verbatim>\<open>ZeroDivisionError\<close>, so no model exists from which a predictive draw could be
  taken.
\<close>

theorem noiseless_model_counterexample:
  "cell_model (\<lambda>x. expand_polynomial x 1) (demo_notebook\<lparr>nb_noise := 0\<rparr>) =
     Inl ZeroDivisionError \<and>
   pm_Model \<lparr>nrows = 2, ncols = 1, rows = [[0 :: real], [1]]\<rparr> 0 [1, 3] = Inl ZeroDivisionError"
  by (simp add: cell_model_def demo_notebook_def expand_polynomial_demo_x pm_Model_zero_noise
      del: One_nat_def)

section \<open>Properties of the notebook's cells\<close>

lemma cell_prediction_Inr:
  assumes "cell_prediction expand_fn samples pick z s = Inr s'"
  shows "\<exists>Q P. expand_fn (nb_x_test s) = Inr Q \<and>
           sample_posterior_predictive (nb_trace s) (nb_model s) Q samples pick z = Inr P \<and>
           s' = s\<lparr>nb_Phi_shared := Q, nb_predictive_samples := P\<rparr>"
  using assms by (auto simp: cell_prediction_def Let_def split: sum.splits)

lemma cell_model_Inr:
  assumes "cell_model expand_fn s = Inr s'"
  shows "\<exists>Q m. expand_fn (nb_x s) = Inr Q \<and> pm_Model Q (nb_noise s) (nb_t s) = Inr m \<and>
           s' = s\<lparr>nb_Phi := Q, nb_Phi_shared := Q, nb_model := m\<rparr>"
  using assms by (auto simp: cell_model_def split: sum.splits)

lemma cell_model_Inl:
  "expand_fn (nb_x s) = Inl e \<Longrightarrow> cell_model expand_fn s = Inl e"
  by (simp add: cell_model_def)

lemma cell_model_zero_cols:
  "expand_fn (nb_x s) = Inr P \<Longrightarrow> ncols P = 0 \<Longrightarrow> cell_model expand_fn s = Inl ValueError"
  by (simp add: cell_model_def pm_Model_zero_cols)

lemma cell_inference_Inr:
  assumes "cell_inference nuts draws s = Inr s'"
  shows "\<exists>vals. s' = s\<lparr>nb_trace :=
                   map (\<lambda>k. \<lparr>w_0 = vals k 0,
                              w_r = map (\<lambda>j. vals k (Suc j))
                                      [0..<m_w_r_shape (nb_model s)]\<rparr>) [0..<draws]\<rparr>"
  using assms by (auto simp: cell_inference_def split: sum.splits)

lemma trace_shapes:
  assumes "cell_model expand_fn s = Inr s1" and "cell_inference nuts draws s1 = Inr s2"
  shows "expand_fn (nb_x s) = Inr (nb_Phi s2) \<and> length (nb_trace s2) = draws \<and>
         (\<forall>p\<in>set (nb_trace s2). length (w_r p) = ncols (nb_Phi s2))"
proof -
  from cell_model_Inr [OF assms(1)] obtain Q m where Q: "expand_fn (nb_x s) = Inr Q"
    and m: "pm_Model Q (nb_noise s) (nb_t s) = Inr m"
    and s1: "s1 = s\<lparr>nb_Phi := Q, nb_Phi_shared := Q, nb_model := m\<rparr>"
    by blast
  from pm_Model_Inr [OF m] have shape: "m_w_r_shape m = ncols Q"
    by simp
  from cell_inference_Inr [OF assms(2)] obtain vals where
    s2: "s2 = s1\<lparr>nb_trace :=
                   map (\<lambda>k. \<lparr>w_0 = vals k 0,
                              w_r = map (\<lambda>j. vals k (Suc j))
                                      [0..<m_w_r_shape (nb_model s1)]\<rparr>) [0..<draws]\<rparr>"
    by blast
  have "nb_Phi s2 = Q"
    by (simp add: s2 s1)
  moreover have "length (nb_trace s2) = draws"
    by (simp add: s2)
  moreover have "\<forall>p\<in>set (nb_trace s2). length (w_r p) = ncols Q"
    by (auto simp: s2 s1 shape)
  ultimately show ?thesis
    using Q by simp
qed

lemma expand_gaussian_reals_rows:
  assumes "mus \<noteq> []"
  shows "\<exists>Q. expand_gaussian_reals x mus sigma = Inr Q \<and> nrows Q = length x \<and>
           ncols Q = length mus"
  by (simp add: expand_gaussian_reals_def expand_gaussian_rows [OF assms] nan_free_def)

lemma cell_prediction_shape:
  assumes "cell_prediction expand_fn samples pick z r = Inr r'"
  shows "\<exists>Q. expand_fn (nb_x_test r) = Inr Q \<and>
           nrows (nb_predictive_samples r') = samples \<and>
           ncols (nb_predictive_samples r') =
             (if nrows Q = 1 then length (m_observed (nb_model r)) else nrows Q) \<and>
           wf_ndarray (nb_predictive_samples r')"
proof -
  from cell_prediction_Inr [OF assms] obtain Q P where Q: "expand_fn (nb_x_test r) = Inr Q"
    and P: "sample_posterior_predictive (nb_trace r) (nb_model r) Q samples pick z = Inr P"
    and r': "r' = r\<lparr>nb_Phi_shared := Q, nb_predictive_samples := P\<rparr>"
    by blast
  note sh = sample_posterior_predictive_Inr_shape [OF P]
  have "nb_predictive_samples r' = P"
    by (simp add: r')
  with Q sh show ?thesis
    by simp
qed

lemma cell_inference_demo:
  "cell_inference (\<lambda>m P. Inr (\<lambda>k j. 0)) 2 demo_notebook =
     Inr (demo_notebook\<lparr>nb_trace := [\<lparr>w_0 = 0, w_r = [0]\<rparr>, \<lparr>w_0 = 0, w_r = [0]\<rparr>]\<rparr>)"
  by (simp add: cell_inference_def demo_notebook_def numeral_2_eq_2)

lemma expand_polynomial_Inl_iff:
  "expand_polynomial x degree = Inl ValueError \<longleftrightarrow> degree < 1"
proof (cases "degree < 1")
  case True
  then show ?thesis
    by (simp add: expand_polynomial_Inl)
next
  case False
  then have "1 \<le> degree"
    by simp
  from expand_polynomial_rows [OF this, of x] False show ?thesis
    by simp
qed

lemma expand_gaussian_Inl_iff:
  "expand_gaussian x mus sigma = Inl ValueError \<longleftrightarrow> mus = []"
proof (cases "mus = []")
  case True
  then show ?thesis
    by (simp add: expand_gaussian_Inl)
next
  case False
  from expand_gaussian_rows [OF this, of x sigma] False show ?thesis
    by simp
qed

lemma expand_gaussian_nan:
  assumes "mus \<noteq> []" and "sigma \<le> 0"
  shows "expand_gaussian x mus sigma =
           Inr \<lparr>nrows = length x, ncols = length mus,
                rows = replicate (length x) (replicate (length mus) None)\<rparr>"
proof -
  have "norm_pdf mu sigma xi = None" for mu xi
    using assms(2) by (simp add: norm_pdf_def)
  then show ?thesis
    by (simp add: expand_gaussian_rows [OF assms(1)] map_replicate_const)
qed

lemma expand_polynomial_ncols:
  assumes "expand_polynomial x degree = Inr A"
  shows "1 \<le> ncols A"
proof (cases "degree < 1")
  case True
  with assms show ?thesis
    by (simp add: expand_polynomial_Inl)
next
  case False
  then have d: "1 \<le> degree"
    by simp
  from assms have "ncols A = nat degree"
    by (simp add: expand_polynomial_rows [OF d]) auto
  with d show ?thesis
    by simp
qed

lemma expand_gaussian_ncols:
  assumes "expand_gaussian x mus sigma = Inr B"
  shows "1 \<le> ncols B"
proof (cases "mus = []")
  case True
  with assms show ?thesis
    by (simp add: expand_gaussian_Inl)
next
  case False
  from assms have "ncols B = length mus"
    by (simp add: expand_gaussian_rows [OF False]) auto
  with False show ?thesis
    by (cases mus) simp_all
qed

lemma expand_default:
  "expand x = Inr \<lparr>nrows = length x, ncols = 3,
                   rows = map (\<lambda>xi. [xi, xi ^ 2, xi ^ 3]) x\<rparr>"
proof -
  have "[1..3::int] = [1, 2, 3]"
    by (simp add: upto.simps)
  then show ?thesis
    using expand_polynomial_rows [of 3 x] by (simp add: expand_def)
qed

text \<open>
  C5 (as the code has it).  Expansion returns a well-shaped matrix with one row for each
  input and one column for each basis function.  Every draw of the trace that the
  inference cell stores for a model has a \<open>w_r\<close> whose length is the column count of the
  design matrix the model was built from.  The predictive sample array is well shaped
  and has one row for each predictive draw; each row has one entry for each query
  input, except that a single query input is broadcast to the number of observed
  targets.
\<close>

theorem shape_invariants:
  "(1 \<le> degree \<longrightarrow>
      (\<exists>A. expand_polynomial x degree = Inr A \<and> wf_ndarray A \<and>
           nrows A = length x \<and> ncols A = nat degree)) \<and>
   (mus \<noteq> [] \<longrightarrow>
      (\<exists>A. expand_gaussian x mus sigma = Inr A \<and> wf_ndarray A \<and>
           nrows A = length x \<and> ncols A = length mus)) \<and>
   (cell_model expand_fn s = Inr s1 \<and> cell_inference nuts draws s1 = Inr s2 \<longrightarrow>
      expand_fn (nb_x s) = Inr (nb_Phi s2) \<and> length (nb_trace s2) = draws \<and>
      (\<forall>p\<in>set (nb_trace s2). length (w_r p) = ncols (nb_Phi s2))) \<and>
   (sample_posterior_predictive trace m Phi samples pick z = Inr P \<longrightarrow>
      nrows P = samples \<and>
      ncols P = (if nrows Phi = 1 then length (m_observed m) else nrows Phi) \<and>
      wf_ndarray P) \<and>
   (cell_prediction expand_r n pk zz r = Inr r' \<longrightarrow>
      (\<exists>Q. expand_r (nb_x_test r) = Inr Q \<and>
           nrows (nb_predictive_samples r') = n \<and>
           ncols (nb_predictive_samples r') =
             (if nrows Q = 1 then length (m_observed (nb_model r)) else nrows Q) \<and>
           wf_ndarray (nb_predictive_samples r'))) \<and>
   (mus \<noteq> [] \<longrightarrow>
      (\<exists>Q. expand_gaussian_reals x mus sigma = Inr Q \<and> nrows Q = length x \<and>
           ncols Q = length mus))"
proof (intro conjI impI)
  assume d: "1 \<le> degree"
  show "\<exists>A. expand_polynomial x degree = Inr A \<and> wf_ndarray A \<and>
          nrows A = length x \<and> ncols A = nat degree"
    by (simp add: expand_polynomial_rows [OF d] wf_ndarray_def list_all_iff)
next
  assume m: "mus \<noteq> []"
  show "\<exists>A. expand_gaussian x mus sigma = Inr A \<and> wf_ndarray A \<and>
          nrows A = length x \<and> ncols A = length mus"
    by (simp add: expand_gaussian_rows [OF m] wf_ndarray_def list_all_iff)
next
  assume "cell_model expand_fn s = Inr s1 \<and> cell_inference nuts draws s1 = Inr s2"
  then have a: "cell_model expand_fn s = Inr s1" and b: "cell_inference nuts draws s1 = Inr s2"
    by simp_all
  note t = trace_shapes [OF a b]
  show "expand_fn (nb_x s) = Inr (nb_Phi s2)" and "length (nb_trace s2) = draws"
    and "\<forall>p\<in>set (nb_trace s2). length (w_r p) = ncols (nb_Phi s2)"
    using t by simp_all
next
  assume spp: "sample_posterior_predictive trace m Phi samples pick z = Inr P"
  note sh = sample_posterior_predictive_Inr_shape [OF spp]
  show "nrows P = samples"
    and "ncols P = (if nrows Phi = 1 then length (m_observed m) else nrows Phi)"
    and "wf_ndarray P"
    using sh by simp_all
next
  assume "cell_prediction expand_r n pk zz r = Inr r'"
  then show "\<exists>Q. expand_r (nb_x_test r) = Inr Q \<and>
           nrows (nb_predictive_samples r') = n \<and>
           ncols (nb_predictive_samples r') =
             (if nrows Q = 1 then length (m_observed (nb_model r)) else nrows Q) \<and>
           wf_ndarray (nb_predictive_samples r')"
    by (rule cell_prediction_shape)
next
  assume m: "mus \<noteq> []"
  show "\<exists>Q. expand_gaussian_reals x mus sigma = Inr Q \<and> nrows Q = length x \<and>
          ncols Q = length mus"
    by (rule expand_gaussian_reals_rows [OF m])
qed

theorem shape_invariants_witness:
  "(\<exists>A. expand_polynomial [0] 1 = Inr A \<and> wf_ndarray A \<and>
        nrows A = length [0 :: real] \<and> ncols A = nat 1) \<and>
   (\<exists>A. expand_gaussian [0] [0] 1 = Inr A \<and> wf_ndarray A \<and>
        nrows A = length [0 :: real] \<and> ncols A = length [0 :: real]) \<and>
   expand_polynomial (nb_x demo_notebook) 1 = Inr (nb_Phi demo_notebook) \<and>
   length [\<lparr>w_0 = 0, w_r = [0]\<rparr>, \<lparr>w_0 = 0, w_r = [0 :: real]\<rparr>] = 2 \<and>
   length (w_r \<lparr>w_0 = 0, w_r = [0]\<rparr>) = ncols (nb_Phi demo_notebook) \<and>
   nrows \<lparr>nrows = 3, ncols = 2, rows = replicate 3 [1, 3 :: real]\<rparr> = 3 \<and>
   ncols \<lparr>nrows = 3, ncols = 2, rows = replicate 3 [1, 3 :: real]\<rparr> =
     nrows \<lparr>nrows = 2, ncols = 1, rows = [[0 :: real], [1]]\<rparr> \<and>
   (\<exists>Q. expand_polynomial (nb_x_test demo_notebook) 1 = Inr Q \<and> nrows Q = 2) \<and>
   (\<exists>Q. expand_gaussian_reals [0] [0] 1 = Inr Q \<and> nrows Q = length [0 :: real] \<and>
        ncols Q = length [0 :: real])"
proof -
  let ?s2 = "demo_notebook\<lparr>nb_trace := [\<lparr>w_0 = 0, w_r = [0]\<rparr>, \<lparr>w_0 = 0, w_r = [0]\<rparr>]\<rparr>"
  let ?r' = "demo_notebook
               \<lparr>nb_Phi_shared := \<lparr>nrows = 2, ncols = 1, rows = [[0], [1]]\<rparr>,
                nb_predictive_samples := \<lparr>nrows = 3, ncols = 2, rows = replicate 3 [1, 3]\<rparr>\<rparr>"
  note inst = shape_invariants [where degree = 1 and x = "[0]" and mus = "[0]" and sigma = 1
      and expand_fn = "\<lambda>x. expand_polynomial x 1" and s = demo_notebook and ?s1.0 = demo_notebook
      and nuts = "\<lambda>m P. Inr (\<lambda>k j. 0)" and draws = 2 and ?s2.0 = ?s2
      and trace = "[\<lparr>w_0 = 1, w_r = [2]\<rparr>]" and m = "nb_model demo_notebook"
      and Phi = "\<lparr>nrows = 2, ncols = 1, rows = [[0], [1]]\<rparr>" and samples = 3
      and pick = "\<lambda>k. k" and z = "\<lambda>k i. 0"
      and P = "\<lparr>nrows = 3, ncols = 2, rows = replicate 3 [1, 3]\<rparr>"
      and expand_r = "\<lambda>x. expand_polynomial x 1" and n = 3 and pk = "\<lambda>k. k"
      and zz = "\<lambda>k i. 0" and r = demo_notebook and r' = ?r']
  have three: "0 < (3 :: nat)"
    by simp
  have c1: "\<exists>A. expand_polynomial [0] 1 = Inr A \<and> wf_ndarray A \<and>
        nrows A = length [0 :: real] \<and> ncols A = nat 1"
    using inst [THEN conjunct1] by simp
  have c2: "\<exists>A. expand_gaussian [0] [0] 1 = Inr A \<and> wf_ndarray A \<and>
        nrows A = length [0 :: real] \<and> ncols A = length [0 :: real]"
    using inst [THEN conjunct2, THEN conjunct1] by simp
  have c3: "expand_polynomial (nb_x demo_notebook) 1 = Inr (nb_Phi ?s2) \<and>
      length (nb_trace ?s2) = 2 \<and>
      (\<forall>p\<in>set (nb_trace ?s2). length (w_r p) = ncols (nb_Phi ?s2))"
    using inst [THEN conjunct2, THEN conjunct2, THEN conjunct1] cell_model_demo
      cell_inference_demo by simp
  have c4: "nrows \<lparr>nrows = 3, ncols = 2, rows = replicate 3 [1, 3 :: real]\<rparr> = 3 \<and>
      ncols \<lparr>nrows = 3, ncols = 2, rows = replicate 3 [1, 3 :: real]\<rparr> =
        nrows \<lparr>nrows = 2, ncols = 1, rows = [[0 :: real], [1]]\<rparr>"
    using inst [THEN conjunct2, THEN conjunct2, THEN conjunct2, THEN conjunct1]
      sample_posterior_predictive_demo_zero_variates [OF three, of "nb_model demo_notebook" "\<lambda>k. k"]
    by simp
  have c5: "\<exists>Q. expand_polynomial (nb_x_test demo_notebook) 1 = Inr Q \<and> nrows Q = 2"
    using inst [THEN conjunct2, THEN conjunct2, THEN conjunct2, THEN conjunct2, THEN conjunct1]
      cell_prediction_demo [OF three, of "\<lambda>k. k"]
    by (simp add: demo_notebook_def expand_polynomial_demo_x_test)
  have c6: "\<exists>Q. expand_gaussian_reals [0] [0] 1 = Inr Q \<and> nrows Q = length [0 :: real] \<and>
        ncols Q = length [0 :: real]"
    using inst [THEN conjunct2, THEN conjunct2, THEN conjunct2, THEN conjunct2, THEN conjunct2]
    by simp
  from c3 have c3': "expand_polynomial (nb_x demo_notebook) 1 = Inr (nb_Phi demo_notebook)"
    and c3'': "length (w_r \<lparr>w_0 = 0, w_r = [0]\<rparr>) = ncols (nb_Phi demo_notebook)"
    by simp_all
  from c1 c2 c3' c3'' c4 c5 c6 show ?thesis
    by simp
qed

text \<open>
  The row count of the predictive sample array is the number of draws, not the number
  of query inputs: three draws at two query inputs give three rows.
\<close>

theorem predictive_rows_counterexample:
  "\<exists>s'. cell_prediction (\<lambda>x. expand_polynomial x 1) 3 (\<lambda>k. k) (\<lambda>k i. 0) demo_notebook = Inr s' \<and>
        length (nb_x_test demo_notebook) = 2 \<and>
        nrows (nb_predictive_samples s') = 3 \<and>
        nrows (nb_predictive_samples s') \<noteq> length (nb_x_test demo_notebook)"
  by (simp add: cell_prediction_demo) (simp add: demo_notebook_def)

text \<open>
  C7 (as the code has it).  Expansion raises \<^verbatim>\<open>ValueError\<close> exactly when there is no
  basis function to stack: a polynomial degree below one, or an empty list of centres.
  The error is raised in the model cell, before any model exists that could be sampled.
  A bandwidth that is not positive raises nothing: every entry of the design matrix
  is \<^verbatim>\<open>nan\<close>.  For every other argument expansion returns a matrix.
\<close>

theorem expand_failure_cases:
  "(expand_polynomial x degree = Inl ValueError \<longleftrightarrow> degree < 1) \<and>
   (expand_gaussian x mus sigma = Inl ValueError \<longleftrightarrow> mus = []) \<and>
   (mus \<noteq> [] \<and> sigma \<le> 0 \<longrightarrow>
      expand_gaussian x mus sigma =
        Inr \<lparr>nrows = length x, ncols = length mus,
             rows = replicate (length x) (replicate (length mus) None)\<rparr>) \<and>
   (degree < 1 \<longrightarrow> cell_model (\<lambda>x. expand_polynomial x degree) s = Inl ValueError) \<and>
   (1 \<le> degree \<longrightarrow> (\<exists>A. expand_polynomial x degree = Inr A)) \<and>
   (mus \<noteq> [] \<longrightarrow> (\<exists>B. expand_gaussian x mus sigma = Inr B)) \<and>
   cell_model (\<lambda>x. expand_gaussian x [] sigma) g = Inl ValueError"
proof -
  have "1 \<le> degree \<Longrightarrow> \<exists>A. expand_polynomial x degree = Inr A"
    by (simp add: expand_polynomial_rows)
  moreover have "mus \<noteq> [] \<Longrightarrow> \<exists>B. expand_gaussian x mus sigma = Inr B"
    by (simp add: expand_gaussian_rows)
  moreover have "cell_model (\<lambda>x. expand_gaussian x [] sigma) g = Inl ValueError"
    by (rule cell_model_Inl) (rule expand_gaussian_Inl)
  moreover have "degree < 1 \<Longrightarrow>
      cell_model (\<lambda>x. expand_polynomial x degree) s = Inl ValueError"
    by (rule cell_model_Inl) (rule expand_polynomial_Inl)
  ultimately show ?thesis
    using expand_polynomial_Inl_iff [of x degree] expand_gaussian_Inl_iff [of x mus sigma]
      expand_gaussian_nan [of mus sigma x]
    by blast
qed

theorem expand_failure_cases_witness:
  "expand_polynomial [0] 0 = Inl ValueError \<and>
   expand_gaussian [0] [0] (- 1) \<noteq> Inl ValueError \<and>
   expand_gaussian [0] [0] (- 1) =
     Inr \<lparr>nrows = length [0 :: real], ncols = length [0 :: real],
          rows = replicate (length [0 :: real]) (replicate (length [0 :: real]) None)\<rparr> \<and>
   cell_model (\<lambda>x. expand_polynomial x 0) demo_notebook = Inl ValueError \<and>
   (\<exists>A. expand_polynomial [0] 1 = Inr A)"
proof -
  note a = expand_failure_cases [where x = "[0]" and degree = 0 and mus = "[0]"
      and sigma = "- 1" and s = demo_notebook]
  note b = expand_failure_cases [where x = "[0]" and degree = 1]
  have "\<exists>A. expand_polynomial [0] 1 = Inr A"
    using b [THEN conjunct2, THEN conjunct2, THEN conjunct2, THEN conjunct2, THEN conjunct1]
    by simp
  moreover have "expand_polynomial [0] 0 = Inl ValueError \<and>
      expand_gaussian [0] [0] (- 1) \<noteq> Inl ValueError \<and>
      expand_gaussian [0] [0] (- 1) =
        Inr \<lparr>nrows = length [0 :: real], ncols = length [0 :: real],
             rows = replicate (length [0 :: real]) (replicate (length [0 :: real]) None)\<rparr> \<and>
      cell_model (\<lambda>x. expand_polynomial x 0) demo_notebook = Inl ValueError"
    using a by simp
  ultimately show ?thesis
    by simp
qed

text \<open>
  With the bandwidth 0 the Gaussian expansion returns a matrix; it does not fail.
\<close>

theorem expand_gaussian_bandwidth_counterexample:
  "expand_gaussian [0] [0] 0 = Inr \<lparr>nrows = 1, ncols = 1, rows = [[None]]\<rparr> \<and>
   expand_gaussian [0] [0] 0 \<noteq> Inl ValueError"
  using expand_gaussian_nan [of "[0]" 0 "[0]"] by simp

text \<open>
  C8 (as the code has it).  With an empty basis set (a polynomial degree below one, or
  no Gaussian centres) expansion raises \<^verbatim>\<open>ValueError\<close> and the model cell fails with
  it, so that no model is built or sampled: a design matrix that expansion returns has
  at least one column.  The model cell also fails with \<^verbatim>\<open>ValueError\<close> on a design
  matrix that has no columns, however it was obtained.
\<close>

theorem empty_basis_pipeline:
  "(degree < 1 \<longrightarrow>
      expand_polynomial x degree = Inl ValueError \<and>
      cell_model (\<lambda>x. expand_polynomial x degree) s = Inl ValueError) \<and>
   expand_gaussian x [] sigma = Inl ValueError \<and>
   cell_model (\<lambda>x. expand_gaussian x [] sigma) g = Inl ValueError \<and>
   (expand_polynomial x degree = Inr A \<longrightarrow> 1 \<le> ncols A) \<and>
   (expand_gaussian x mus sigma = Inr B \<longrightarrow> 1 \<le> ncols B) \<and>
   (expand_fn (nb_x u) = Inr P \<and> ncols P = 0 \<longrightarrow> cell_model expand_fn u = Inl ValueError)"
proof -
  have "cell_model (\<lambda>x. expand_gaussian x [] sigma) g = Inl ValueError"
    by (rule cell_model_Inl) (rule expand_gaussian_Inl)
  moreover have "degree < 1 \<Longrightarrow>
      cell_model (\<lambda>x. expand_polynomial x degree) s = Inl ValueError"
    by (rule cell_model_Inl) (rule expand_polynomial_Inl)
  moreover have "expand_fn (nb_x u) = Inr P \<and> ncols P = 0 \<Longrightarrow>
      cell_model expand_fn u = Inl ValueError"
    using cell_model_zero_cols [of expand_fn u P] by simp
  ultimately show ?thesis
    using expand_polynomial_Inl [of degree x] expand_gaussian_Inl [of x sigma]
      expand_polynomial_ncols [of x degree A] expand_gaussian_ncols [of x mus sigma B]
    by blast
qed

theorem empty_basis_pipeline_witness:
  "expand_polynomial [0] 0 = Inl ValueError \<and>
   cell_model (\<lambda>x. expand_polynomial x 0) demo_notebook = Inl ValueError \<and>
   expand_gaussian [0] [] 1 = Inl ValueError \<and>
   1 \<le> ncols \<lparr>nrows = 1, ncols = 1, rows = [[0 :: real]]\<rparr> \<and>
   cell_model (\<lambda>x. Inr \<lparr>nrows = length x, ncols = 0, rows = map (\<lambda>xi. []) x\<rparr>) demo_notebook =
     Inl ValueError"
proof -
  note a = empty_basis_pipeline [where degree = 0 and x = "[0]" and s = demo_notebook
      and sigma = 1
      and expand_fn = "\<lambda>x. Inr \<lparr>nrows = length x, ncols = 0, rows = map (\<lambda>xi. []) x\<rparr>"
      and u = demo_notebook
      and P = "\<lparr>nrows = length (nb_x demo_notebook), ncols = 0,
                rows = map (\<lambda>xi. []) (nb_x demo_notebook)\<rparr>"]
  note b = empty_basis_pipeline [where degree = 1 and x = "[0]"
      and A = "\<lparr>nrows = 1, ncols = 1, rows = [[0]]\<rparr>"]
  have "1 \<le> ncols \<lparr>nrows = 1, ncols = 1, rows = [[0 :: real]]\<rparr>"
    using b [THEN conjunct2, THEN conjunct2, THEN conjunct2, THEN conjunct1]
      expand_polynomial_demo_x
    by simp
  moreover have "expand_polynomial [0] 0 = Inl ValueError \<and>
      cell_model (\<lambda>x. expand_polynomial x 0) demo_notebook = Inl ValueError"
    using a [THEN conjunct1] by simp
  moreover have "expand_gaussian [0] [] 1 = Inl ValueError"
    using a [THEN conjunct2, THEN conjunct1] .
  moreover have "cell_model (\<lambda>x. Inr \<lparr>nrows = length x, ncols = 0, rows = map (\<lambda>xi. []) x\<rparr>)
      demo_notebook = Inl ValueError"
    using a [THEN conjunct2, THEN conjunct2, THEN conjunct2, THEN conjunct2, THEN conjunct2]
    by simp
  ultimately show ?thesis
    by blast
qed

text \<open>
  With degree 0, with no centres, or with a design matrix that has no columns, the
  pipeline stops in the model cell with \<^verbatim>\<open>ValueError\<close>; the sampler is never reached.
\<close>

theorem empty_basis_counterexample:
  "expand_polynomial (nb_x demo_notebook) 0 = Inl ValueError \<and>
   cell_model (\<lambda>x. expand_polynomial x 0) demo_notebook = Inl ValueError \<and>
   expand_gaussian (nb_x demo_notebook) [] (3 / 10) = Inl ValueError \<and>
   cell_model (\<lambda>x. Inr \<lparr>nrows = length x, ncols = 0, rows = map (\<lambda>xi. []) x\<rparr>) demo_notebook =
     Inl ValueError"
  by (simp add: expand_polynomial_Inl expand_gaussian_Inl cell_model_Inl cell_model_zero_cols)





end
